theory Spec2Isabelle
  imports Complex_Main "HOL-Library.Sublist" "HOL-Library.List_Lexorder" "HOL-Library.Char_ord"
    "HOL-Library.Multiset"
begin

section \<open>JavaScript values used by the scheduling code\<close>

text \<open>
  A \<^verbatim>\<open>Date\<close> is modelled by its time value, an integer number of milliseconds since the
  epoch (a valid date inside the representable range). Local time is the time value
  shifted by a fixed offset \<open>tz\<close> (milliseconds east of UTC); daylight-saving transitions
  are not modelled. The day and time arithmetic follows the abstract operations of
  ECMAScript (Day, TimeWithinDay, HourFromTime, MinFromTime, MakeTime, MakeDay, WeekDay);
  \<open>div\<close> and \<open>mod\<close> on \<open>int\<close> round towards minus infinity, as those operations do.
\<close>

type_synonym Date = int

definition msPerDay :: int where
  "msPerDay = 86400000"

definition msPerHour :: int where
  "msPerHour = 3600000"

definition msPerMinute :: int where
  "msPerMinute = 60000"

definition LocalTime :: "int \<Rightarrow> Date \<Rightarrow> int" where
  "LocalTime tz t = t + tz"

definition UTC_of :: "int \<Rightarrow> int \<Rightarrow> Date" where
  "UTC_of tz l = l - tz"

definition Day :: "int \<Rightarrow> int" where
  "Day t = t div msPerDay"

definition HourFromTime :: "int \<Rightarrow> int" where
  "HourFromTime t = (t div msPerHour) mod 24"

definition MinFromTime :: "int \<Rightarrow> int" where
  "MinFromTime t = (t div msPerMinute) mod 60"

definition SecFromTime :: "int \<Rightarrow> int" where
  "SecFromTime t = (t div 1000) mod 60"

definition msFromTime :: "int \<Rightarrow> int" where
  "msFromTime t = t mod 1000"

definition WeekDay :: "int \<Rightarrow> int" where
  "WeekDay t = (Day t + 4) mod 7"

definition MakeTime :: "int \<Rightarrow> int \<Rightarrow> int \<Rightarrow> int \<Rightarrow> int" where
  "MakeTime h m s ms = h * msPerHour + m * msPerMinute + s * 1000 + ms"

definition MakeDate :: "int \<Rightarrow> int \<Rightarrow> int" where
  "MakeDate day time = day * msPerDay + time"

text \<open>\<^verbatim>\<open>date.getDay()\<close>, \<^verbatim>\<open>date.getMinutes()\<close>, \<^verbatim>\<open>date.setHours(h, m, s, ms)\<close> and
  \<^verbatim>\<open>date.setMinutes(m)\<close>, all in local time.\<close>

definition getDay :: "int \<Rightarrow> Date \<Rightarrow> int" where
  "getDay tz d = WeekDay (LocalTime tz d)"

definition getMinutes :: "int \<Rightarrow> Date \<Rightarrow> int" where
  "getMinutes tz d = MinFromTime (LocalTime tz d)"

definition setHours :: "int \<Rightarrow> Date \<Rightarrow> int \<Rightarrow> int \<Rightarrow> int \<Rightarrow> int \<Rightarrow> Date" where
  "setHours tz d h m s ms = UTC_of tz (MakeDate (Day (LocalTime tz d)) (MakeTime h m s ms))"

definition setMinutes :: "int \<Rightarrow> Date \<Rightarrow> int \<Rightarrow> Date" where
  "setMinutes tz d m =
     (let t = LocalTime tz d
      in UTC_of tz (MakeDate (Day t) (MakeTime (HourFromTime t) m (SecFromTime t) (msFromTime t))))"

text \<open>
  Strings are lists of characters; the characters that occur in the modelled data are
  ASCII, where the order of JavaScript's \<^verbatim>\<open><\<close> on strings (by code unit, a proper prefix
  first) is the lexicographic order of \<open>char list\<close>.
  \<^verbatim>\<open>date.toTimeString().slice(0, 5)\<close> is the local time of day as \<^verbatim>\<open>HH:MM\<close>.
\<close>

definition digit_char :: "int \<Rightarrow> char" where
  "digit_char d = ''0123456789'' ! nat d"

definition pad2 :: "int \<Rightarrow> string" where
  "pad2 n = [digit_char (n div 10), digit_char (n mod 10)]"

definition hhmm :: "int \<Rightarrow> int \<Rightarrow> string" where
  "hhmm h m = pad2 h @ '':'' @ pad2 m"

definition toTimeString5 :: "int \<Rightarrow> Date \<Rightarrow> string" where
  "toTimeString5 tz d = (let t = LocalTime tz d in hhmm (HourFromTime t) (MinFromTime t))"

text \<open>The minute of the local day that \<^verbatim>\<open>toTimeString().slice(0, 5)\<close> shows.\<close>

definition minuteOfDay :: "int \<Rightarrow> Date \<Rightarrow> int" where
  "minuteOfDay tz t = 60 * HourFromTime (LocalTime tz t) + MinFromTime (LocalTime tz t)"

text \<open>
  \<^verbatim>\<open>s.split(':')\<close> and \<^verbatim>\<open>Number(s)\<close>. \<open>Number\<close> is modelled on the strings a schedule
  holds: a string of decimal digits is its value and the empty string is 0. \<open>None\<close> stands
  for \<^verbatim>\<open>NaN\<close>; the other numeric literal forms of JavaScript (sign, fraction, exponent,
  radix prefix, surrounding white space) are outside the model, and the properties below
  that read a schedule's times assume the documented \<^verbatim>\<open>"HH:MM"\<close> form.
\<close>

fun split_colon :: "string \<Rightarrow> string list" where
  "split_colon [] = [[]]"
| "split_colon (c # cs) =
     (if c = CHR '':'' then [] # split_colon cs
      else (case split_colon cs of p # ps \<Rightarrow> (c # p) # ps | [] \<Rightarrow> [[c]]))"

definition digit_val :: "char \<Rightarrow> int option" where
  "digit_val c =
     (if CHR ''0'' \<le> c \<and> c \<le> CHR ''9'' then Some (int (of_char c) - 48) else None)"

fun Number_from :: "int \<Rightarrow> string \<Rightarrow> int option" where
  "Number_from acc [] = Some acc"
| "Number_from acc (c # cs) =
     (case digit_val c of None \<Rightarrow> None | Some d \<Rightarrow> Number_from (10 * acc + d) cs)"

definition Number :: "string \<Rightarrow> int option" where
  "Number s = Number_from 0 s"

text \<open>\<^verbatim>\<open>const [hour, minute] = s.split(':').map(Number)\<close>: a missing second part is
  \<^verbatim>\<open>undefined\<close>, which \<^verbatim>\<open>setHours\<close> turns into \<^verbatim>\<open>NaN\<close>.\<close>

definition hourMinute :: "string \<Rightarrow> (int option \<times> int option)" where
  "hourMinute s =
     (case map Number (split_colon s) of
        h # m # _ \<Rightarrow> (h, m)
      | [h] \<Rightarrow> (h, None)
      | [] \<Rightarrow> (None, None))"

section \<open>Numbers\<close>

text \<open>
  A JavaScript number is an IEEE 754 double; a finite one is modelled by the rational it
  denotes. \<open>nearest_double x\<close> is the number that a numeric literal, a number of a JSON
  text or the exact result of an arithmetic operation becomes: the double nearest to \<open>x\<close>,
  a tie going to the even significand, with 53 significant bits and the fixed quantum
  \<open>2 ^ (-1074)\<close> below \<open>2 ^ (-1022)\<close>.
  \<^verbatim>\<open>NaN\<close> and the infinities are not modelled: a value of magnitude \<open>2 ^ 1024\<close> or more
  stands for a result that JavaScript gives as \<^verbatim>\<open>Infinity\<close>, and the properties of
  durations below are stated for finite numbers (\<open>finite_number\<close>).
\<close>

definition pow2 :: "int \<Rightarrow> rat" where
  "pow2 e = (if 0 \<le> e then 2 ^ nat e else 1 / 2 ^ nat (- e))"

definition round_half_even :: "rat \<Rightarrow> int" where
  "round_half_even q =
     (let f = \<lfloor>q\<rfloor>; d = q - of_int f
      in if d < 1 / 2 then f else if 1 / 2 < d then f + 1 else if even f then f else f + 1)"

function bit_length :: "int \<Rightarrow> nat" where
  "bit_length n = (if n \<le> 0 then 0 else Suc (bit_length (n div 2)))"
  by pat_completeness auto
termination
  by (relation "measure nat") auto

text \<open>The exponent \<open>e\<close> with \<open>2 ^ e \<le> \<bar>x\<bar> < 2 ^ (e + 1)\<close>, for \<open>x \<noteq> 0\<close>.\<close>

definition binary_exponent :: "rat \<Rightarrow> int" where
  "binary_exponent x =
     (let (p, q) = quotient_of \<bar>x\<bar>;
          e0 = int (bit_length p) - int (bit_length q)
      in if pow2 e0 \<le> \<bar>x\<bar> then e0 else e0 - 1)"

definition nearest_double :: "rat \<Rightarrow> rat" where
  "nearest_double x =
     (if x = 0 then 0
      else (let e = max (binary_exponent x - 52) (- 1074)
            in sgn x * of_int (round_half_even (\<bar>x\<bar> / pow2 e)) * pow2 e))"


text \<open>The product \<^verbatim>\<open>a * b\<close> of two numbers.\<close>

definition js_times :: "rat \<Rightarrow> rat \<Rightarrow> rat" where
  "js_times a b = nearest_double (a * b)"

section \<open>The scheduling store\<close>

text \<open>The records carry the fields the modelled functions read.\<close>

datatype AppointmentStatus =
  appt_scheduled | appt_confirmed | appt_in_progress | appt_completed | appt_cancelled
| appt_no_show

record Appointment =
  appt_id :: string
  scheduled_start :: int
  scheduled_end :: int
  appt_status :: AppointmentStatus

record ShopSchedule =
  day_of_week :: int
  open_time :: string
  close_time :: string
  lunch_start :: "string option"
  lunch_end :: "string option"
  is_closed :: bool

text \<open>The numbers of a duration configuration. In a store they are the numbers as
  the JSON text writes them; once read they are doubles (\<open>asDoubles\<close>).\<close>

record ServiceDuration =
  service_id :: string
  estimated_minutes :: rat
  complexity_multiplier :: rat

record SchedulingData =
  appointments :: "Appointment list"
  shop_schedules :: "ShopSchedule list"
  service_durations :: "ServiceDuration list"

datatype ConflictType = double_booking | no_tech_available | outside_hours | insufficient_time

text \<open>The message of a conflict is the fixed text followed by the locale's rendering of
  the appointment's start; the record keeps the start itself.\<close>

record AppointmentConflict =
  conflict_type :: ConflictType
  message_time :: int
  conflicting_appointment_id :: "string option"

record TimeSlot =
  slot_start :: Date
  slot_end :: Date
  available :: bool
  reason :: "string option"
  available_techs :: "string list"

definition getDefaultShopSchedule :: "ShopSchedule list" where
  "getDefaultShopSchedule =
     map (\<lambda>(day, opn, cls).
            \<lparr>day_of_week = day, open_time = opn, close_time = cls,
             lunch_start = Some ''12:00'', lunch_end = Some ''13:00'', is_closed = False\<rparr>)
       [(1, ''08:00'', ''17:00''), (2, ''08:00'', ''17:00''), (3, ''08:00'', ''17:00''),
        (4, ''08:00'', ''17:00''), (5, ''08:00'', ''17:00''), (6, ''08:00'', ''15:00''),
        (0, ''10:00'', ''14:00'')]"

definition asDoubles :: "ServiceDuration \<Rightarrow> ServiceDuration" where
  "asDoubles sd =
     sd\<lparr>estimated_minutes := nearest_double (estimated_minutes sd),
        complexity_multiplier := nearest_double (complexity_multiplier sd)\<rparr>"

text \<open>The seeded configurations, with the numeric literals of the source
  (\<^verbatim>\<open>1.0\<close>, \<^verbatim>\<open>1.2\<close>, \<^verbatim>\<open>1.5\<close>, \<^verbatim>\<open>1.3\<close>).\<close>

definition getDefaultServiceDurations :: "ServiceDuration list" where
  "getDefaultServiceDurations =
     map asDoubles
       [\<lparr>service_id = ''oil-change'', estimated_minutes = 30, complexity_multiplier = 1\<rparr>,
        \<lparr>service_id = ''brake-inspection'', estimated_minutes = 45,
         complexity_multiplier = 12 / 10\<rparr>,
        \<lparr>service_id = ''brake-pads'', estimated_minutes = 90, complexity_multiplier = 15 / 10\<rparr>,
        \<lparr>service_id = ''tire-rotation'', estimated_minutes = 25, complexity_multiplier = 1\<rparr>,
        \<lparr>service_id = ''alignment'', estimated_minutes = 60, complexity_multiplier = 13 / 10\<rparr>]"

text \<open>\<^verbatim>\<open>JSON.parse\<close> of the saved text: every number of a duration configuration is read
  as the nearest double. (The timestamps and weekdays of the other records are whole
  numbers, which are doubles as they stand.)\<close>

definition JSON_parse :: "SchedulingData \<Rightarrow> SchedulingData" where
  "JSON_parse saved = saved\<lparr>service_durations := map asDoubles (service_durations saved)\<rparr>"

text \<open>The store is what local storage holds under the service's key: nothing yet
  (\<open>None\<close>), or the saved data. Reading an empty store seeds the defaults.\<close>

definition getSchedulingData :: "SchedulingData option \<Rightarrow> SchedulingData" where
  "getSchedulingData store =
     (case store of
        Some saved \<Rightarrow> JSON_parse saved
      | None \<Rightarrow>
          \<lparr>appointments = [], shop_schedules = getDefaultShopSchedule,
           service_durations = getDefaultServiceDurations\<rparr>)"

section \<open>Service durations\<close>

definition getServiceDuration :: "SchedulingData option \<Rightarrow> string \<Rightarrow> ServiceDuration option" where
  "getServiceDuration store serviceId =
     find (\<lambda>sd. service_id sd = serviceId) (service_durations (getSchedulingData store))"

text \<open>\<^verbatim>\<open>vehicleYear && vehicleYear < 2010\<close>: an absent year and the year 0 are both falsy.
  \<^verbatim>\<open>duration *= multiplier\<close> is the product of doubles, and \<^verbatim>\<open>Math.ceil\<close> the ceiling of a
  finite double.\<close>

definition calculateServiceDuration :: "SchedulingData option \<Rightarrow> string \<Rightarrow> int option \<Rightarrow> int" where
  "calculateServiceDuration store serviceId vehicleYear =
     (case getServiceDuration store serviceId of
        None \<Rightarrow> 60
      | Some serviceDuration \<Rightarrow>
          (let duration = estimated_minutes serviceDuration;
               duration' =
                 (case vehicleYear of
                    Some y \<Rightarrow>
                      if y \<noteq> 0 \<and> y < 2010
                      then js_times duration (complexity_multiplier serviceDuration)
                      else duration
                  | None \<Rightarrow> duration)
           in \<lceil>duration'\<rceil>))"

section \<open>Conflict detection\<close>

text \<open>The scan of \<^verbatim>\<open>checkAppointmentConflict\<close> over the stored appointments, in store
  order: a cancelled appointment is skipped, the first overlapping one is returned.\<close>

fun conflictScan :: "Appointment list \<Rightarrow> Date \<Rightarrow> Date \<Rightarrow> AppointmentConflict option" where
  "conflictScan [] startTime endTime = None"
| "conflictScan (appointment # rest) startTime endTime =
     (if appt_status appointment = appt_cancelled then conflictScan rest startTime endTime
      else if startTime < scheduled_end appointment \<and> endTime > scheduled_start appointment
      then Some \<lparr>conflict_type = double_booking,
                 message_time = scheduled_start appointment,
                 conflicting_appointment_id = Some (appt_id appointment)\<rparr>
      else conflictScan rest startTime endTime)"

definition checkAppointmentConflict ::
  "SchedulingData option \<Rightarrow> Date \<Rightarrow> Date \<Rightarrow> AppointmentConflict option" where
  "checkAppointmentConflict store startTime endTime =
     conflictScan (appointments (getSchedulingData store)) startTime endTime"

section \<open>Available time slots\<close>

definition getShopScheduleForDay ::
  "int \<Rightarrow> SchedulingData option \<Rightarrow> Date \<Rightarrow> ShopSchedule option" where
  "getShopScheduleForDay tz store date =
     find (\<lambda>schedule. day_of_week schedule = getDay tz date)
       (shop_schedules (getSchedulingData store))"

definition getAvailableTechs :: "Date \<Rightarrow> Date \<Rightarrow> string \<Rightarrow> string list" where
  "getAvailableTechs startTime endTime serviceId = [''tech-001'', ''tech-002'']"

text \<open>The body of the loop of \<^verbatim>\<open>getAvailableTimeSlots\<close> from the lunch check to the pushed
  slot. An absent or empty lunch string is falsy and switches the lunch check off.\<close>

definition slotAt ::
  "int \<Rightarrow> SchedulingData option \<Rightarrow> ShopSchedule \<Rightarrow> string \<Rightarrow> Date \<Rightarrow> Date \<Rightarrow> TimeSlot" where
  "slotAt tz store schedule serviceId currentSlot slotEnd =
     (let slotStartTime = toTimeString5 tz currentSlot;
          slotEndTime = toTimeString5 tz slotEnd;
          lunch =
            (case (lunch_start schedule, lunch_end schedule) of
               (Some ls, Some le) \<Rightarrow>
                 ls \<noteq> [] \<and> le \<noteq> [] \<and> slotStartTime < le \<and> slotEndTime > ls
             | _ \<Rightarrow> False);
          (isAvailable, why) =
            (if lunch then (False, Some ''lunch'')
             else (case checkAppointmentConflict store currentSlot slotEnd of
                     Some conflict \<Rightarrow> (False, Some ''booked'')
                   | None \<Rightarrow> (True, None)))
      in \<lparr>slot_start = currentSlot, slot_end = slotEnd, available = isAvailable, reason = why,
          available_techs = getAvailableTechs currentSlot slotEnd serviceId\<rparr>)"

lemma setMinutes_plus_30: "setMinutes tz d (getMinutes tz d + 30) = d + 1800000"
proof -
  define t where "t = d + tz"
  define D where "D = t div 86400000"
  define H where "H = (t div 3600000) mod 24"
  define M where "M = (t div 60000) mod 60"
  define S where "S = (t div 1000) mod 60"
  define r1 where "r1 = t mod 86400000"
  define r2 where "r2 = t mod 3600000"
  define r3 where "r3 = t mod 60000"
  define r4 where "r4 = t mod 1000"
  have a: "t = D * 86400000 + r1"
    unfolding D_def r1_def by simp
  have b: "r1 = H * 3600000 + r2"
    unfolding r1_def H_def r2_def using zmod_zmult2_eq [of 24 t 3600000] by simp
  have c: "r2 = M * 60000 + r3"
    unfolding r2_def M_def r3_def using zmod_zmult2_eq [of 60 t 60000] by simp
  have e: "r3 = S * 1000 + r4"
    unfolding r3_def S_def r4_def using zmod_zmult2_eq [of 60 t 1000] by simp
  have "setMinutes tz d (getMinutes tz d + 30)
      = D * 86400000 + (H * 3600000 + (M + 30) * 60000 + S * 1000 + r4) - tz"
    by (simp add: setMinutes_def getMinutes_def LocalTime_def UTC_of_def MakeDate_def
        MakeTime_def Day_def HourFromTime_def MinFromTime_def SecFromTime_def msFromTime_def
        Let_def msPerDay_def msPerHour_def msPerMinute_def t_def D_def H_def M_def S_def r4_def)
  also have "\<dots> = t + 1800000 - tz"
    using a b c e by (simp add: algebra_simps)
  finally show ?thesis
    by (simp add: t_def)
qed


text \<open>The \<^verbatim>\<open>while (currentSlot < endTime)\<close> loop; the slots pushed so far are the front of
  the result, and \<^verbatim>\<open>break\<close> ends it.\<close>

function slotLoop ::
  "int \<Rightarrow> SchedulingData option \<Rightarrow> ShopSchedule \<Rightarrow> string \<Rightarrow> int \<Rightarrow> Date \<Rightarrow> Date
     \<Rightarrow> TimeSlot list" where
  "slotLoop tz store schedule serviceId serviceDuration endTime currentSlot =
     (if currentSlot < endTime then
        (let slotEnd = currentSlot + serviceDuration * 60000
         in if slotEnd > endTime then []
            else slotAt tz store schedule serviceId currentSlot slotEnd #
                 slotLoop tz store schedule serviceId serviceDuration endTime
                   (setMinutes tz currentSlot (getMinutes tz currentSlot + 30)))
      else [])"
  by pat_completeness auto
termination
  by (relation "measure (\<lambda>(tz, store, schedule, serviceId, serviceDuration, endTime, currentSlot).
        nat (endTime - currentSlot))")
     (auto simp: setMinutes_plus_30)

text \<open>An hour or minute that is \<^verbatim>\<open>NaN\<close> makes the date invalid; \<^verbatim>\<open>currentSlot < endTime\<close> is
  then false and no slot is produced.\<close>

definition getAvailableTimeSlots ::
  "int \<Rightarrow> SchedulingData option \<Rightarrow> Date \<Rightarrow> string \<Rightarrow> int option \<Rightarrow> TimeSlot list" where
  "getAvailableTimeSlots tz store date serviceId vehicleYear =
     (case getShopScheduleForDay tz store date of
        None \<Rightarrow> []
      | Some schedule \<Rightarrow>
          if is_closed schedule then []
          else
            (let serviceDuration = calculateServiceDuration store serviceId vehicleYear
             in case (hourMinute (open_time schedule), hourMinute (close_time schedule)) of
                  ((Some openHour, Some openMinute), (Some closeHour, Some closeMinute)) \<Rightarrow>
                    slotLoop tz store schedule serviceId serviceDuration
                      (setHours tz date closeHour closeMinute 0 0)
                      (setHours tz date openHour openMinute 0 0)
                | _ \<Rightarrow> []))"

lemmas slotLoop_unfold = slotLoop.simps

declare slotLoop.simps [simp del]

section \<open>The shop database and technician ranking\<close>

text \<open>
  \<^verbatim>\<open>s.toLowerCase()\<close> on ASCII letters and \<^verbatim>\<open>text.includes(s)\<close>, the substring test (the
  empty string is included in every string).
\<close>

definition toLowerCase :: "string \<Rightarrow> string" where
  "toLowerCase s =
     map (\<lambda>c. if CHR ''A'' \<le> c \<and> c \<le> CHR ''Z'' then char_of (of_char c + (32::nat)) else c) s"

fun str_includes :: "string \<Rightarrow> string \<Rightarrow> bool" where
  "str_includes [] s = (s = [])"
| "str_includes (c # cs) s = (prefix s (c # cs) \<or> str_includes cs s)"

datatype WorkOrderStatus =
  wo_pending | wo_in_progress | wo_awaiting_approval | wo_approved | wo_completed | wo_cancelled

text \<open>\<open>description\<close> is read by the ranking code although the declared type of a work
  order has no such field; it is absent unless the stored object carries it.\<close>

record WorkOrder =
  wo_id :: string
  vehicle_id :: string
  wo_status :: WorkOrderStatus
  assigned_tech :: "string option"
  customer_concern :: "string option"
  description :: "string option"

record Vehicle =
  vehicle_key :: string
  year :: "int option"

record TechProfile =
  tech_id :: string
  tech_name :: string
  certifications :: "string list option"
  specialties :: "string list option"
  hourly_rate :: "rat option"
  active :: bool

record StorageData =
  vehicles :: "Vehicle list"
  work_orders :: "WorkOrder list"
  tech_profiles :: "TechProfile list"

definition initialData :: StorageData where
  "initialData =
     \<lparr>vehicles = [], work_orders = [],
      tech_profiles =
        [\<lparr>tech_id = ''tech-001'', tech_name = ''Mike Johnson'',
          certifications = Some [''ASE A1'', ''ASE A5'', ''ASE A8''],
          specialties = Some [''brake'', ''suspension'', ''general''],
          hourly_rate = Some 45, active = True\<rparr>,
         \<lparr>tech_id = ''tech-002'', tech_name = ''Sarah Chen'',
          certifications = Some [''ASE A6'', ''ASE A7'', ''ASE L1''],
          specialties = Some [''electrical'', ''engine'', ''diagnostic''],
          hourly_rate = Some 50, active = True\<rparr>,
         \<lparr>tech_id = ''tech-003'', tech_name = ''Carlos Rodriguez'',
          certifications = Some [''ASE A2'', ''ASE A3''],
          specialties = Some [''transmission'', ''engine'', ''general''],
          hourly_rate = Some 42, active = True\<rparr>]\<rparr>"

definition getStorageData :: "StorageData option \<Rightarrow> StorageData" where
  "getStorageData store = (case store of Some saved \<Rightarrow> saved | None \<Rightarrow> initialData)"

text \<open>The workload of a technician; the hours logged today and this week, which depend
  on the clock and do not enter the score, are left out.\<close>

record TechWorkload =
  activeJobs :: nat
  totalEstimatedHours :: nat

definition getTechWorkload :: "StorageData \<Rightarrow> string \<Rightarrow> TechWorkload" where
  "getTechWorkload data techId =
     (let activeJobs =
            filter (\<lambda>wo. assigned_tech wo = Some techId \<and>
                         (wo_status wo = wo_pending \<or> wo_status wo = wo_in_progress))
              (work_orders data)
      in \<lparr>activeJobs = length activeJobs, totalEstimatedHours = length activeJobs * 2\<rparr>)"

text \<open>The two dictionaries are looked up by their own keys; a missing key gives the
  empty list.\<close>

definition keywordMap :: "(string \<times> string list) list" where
  "keywordMap =
     [(''brake'', [''brake'', ''stop'', ''squeaking'', ''grinding'', ''pedal'']),
      (''engine'', [''engine'', ''motor'', ''performance'', ''power'', ''stall'', ''rough idle'']),
      (''electrical'', [''electric'', ''battery'', ''alternator'', ''starter'', ''wiring'', ''lights'']),
      (''transmission'', [''transmission'', ''shift'', ''gear'', ''clutch'', ''automatic'']),
      (''suspension'', [''suspension'', ''shock'', ''strut'', ''bounce'', ''ride'', ''alignment'']),
      (''hvac'', [''heat'', ''air conditioning'', ''ac'', ''climate'', ''defrost'', ''blower'']),
      (''tire'', [''tire'', ''wheel'', ''alignment'', ''balance'', ''rotation''])]"

definition matchesSpecialtyKeywords :: "string \<Rightarrow> string \<Rightarrow> bool" where
  "matchesSpecialtyKeywords specialty jobText =
     (let keywords = (case map_of keywordMap specialty of Some ks \<Rightarrow> ks | None \<Rightarrow> [])
      in list_ex (\<lambda>keyword. str_includes jobText keyword) keywords)"

definition categoryMap :: "(string \<times> string list) list" where
  "categoryMap =
     [(''engine'', [''maintenance'', ''service'', ''tune-up'', ''oil'']),
      (''brake'', [''safety'', ''inspection'']),
      (''electrical'', [''diagnostic'', ''check engine'', ''warning light'']),
      (''transmission'', [''fluid'', ''service'']),
      (''hvac'', [''comfort'', ''cabin'']),
      (''tire'', [''safety'', ''maintenance''])]"

definition matchesSpecialtyCategory :: "string \<Rightarrow> string \<Rightarrow> bool" where
  "matchesSpecialtyCategory specialty jobText =
     (let categories = (case map_of categoryMap specialty of Some cs \<Rightarrow> cs | None \<Rightarrow> [])
      in list_ex (\<lambda>category. str_includes jobText category) categories)"

definition urgentKeywords :: "string list" where
  "urgentKeywords =
     [''urgent'', ''emergency'', ''broke down'', ''won'' @ [CHR 0x27] @ ''t start'',
      ''dangerous'', ''unsafe'']"

definition isUrgentJob :: "WorkOrder \<Rightarrow> bool" where
  "isUrgentJob workOrder =
     (let concern = (case customer_concern workOrder of Some c \<Rightarrow> toLowerCase c | None \<Rightarrow> [])
      in list_ex (\<lambda>keyword. str_includes concern keyword) urgentKeywords)"

text \<open>The text the specialties are matched against: the lower-cased concern, a space,
  the lower-cased description.\<close>

definition jobTextOf :: "WorkOrder \<Rightarrow> string" where
  "jobTextOf workOrder =
     (let concern = (case customer_concern workOrder of Some c \<Rightarrow> toLowerCase c | None \<Rightarrow> []);
          services = (case description workOrder of Some d \<Rightarrow> toLowerCase d | None \<Rightarrow> [])
      in toLowerCase (concern @ '' '' @ services))"

text \<open>One round of \<^verbatim>\<open>tech.specialties.forEach\<close>, on the running score and the
  \<^verbatim>\<open>specialtyMatch\<close> flag.\<close>

definition specialtyStep :: "string \<Rightarrow> int \<times> bool \<Rightarrow> string \<Rightarrow> int \<times> bool" where
  "specialtyStep jobText acc specialty =
     (let specialtyLower = toLowerCase specialty
      in if str_includes jobText specialtyLower then (fst acc + 40, True)
         else if matchesSpecialtyKeywords specialtyLower jobText then (fst acc + 30, True)
         else if matchesSpecialtyCategory specialtyLower jobText then (fst acc + 20, True)
         else acc)"

text \<open>The score of one technician, rule after rule as the code adds them. A rate that is
  absent or 0 is falsy.\<close>

definition scoreTech :: "StorageData \<Rightarrow> WorkOrder \<Rightarrow> TechProfile \<Rightarrow> int" where
  "scoreTech data workOrder tech =
     (let score = 0;
          workload = getTechWorkload data (tech_id tech);
          score =
            (if activeJobs workload \<ge> 4 then score - 50
             else if activeJobs workload \<ge> 3 then score - 30
             else if activeJobs workload \<ge> 2 then score - 15
             else if activeJobs workload = 0 then score + 25
             else score);
          score =
            (case hourly_rate tech of
               Some rate \<Rightarrow>
                 if rate \<noteq> 0
                 then (if rate \<ge> 35 then score + 15
                       else if rate \<ge> 25 then score + 10
                       else score + 5)
                 else score
             | None \<Rightarrow> score);
          score =
            (case certifications tech of
               Some certs \<Rightarrow> if length certs > 0 then score + int (length certs) * 5 else score
             | None \<Rightarrow> score);
          score =
            (case specialties tech of
               Some specs \<Rightarrow>
                 if length specs > 0
                 then (let (score', specialtyMatch) =
                             foldl (specialtyStep (jobTextOf workOrder)) (score, False) specs
                       in if \<not> specialtyMatch then score' - 10 else score')
                 else score
             | None \<Rightarrow> score);
          score =
            (if vehicle_id workOrder \<noteq> []
             then (case find (\<lambda>v. vehicle_key v = vehicle_id workOrder) (vehicles data) of
                     Some vehicle \<Rightarrow>
                       (case year vehicle of
                          Some y \<Rightarrow>
                            if y < 2010
                            then (case hourly_rate tech of
                                    Some rate \<Rightarrow> if rate \<noteq> 0 \<and> rate \<ge> 30 then score + 10 else score
                                  | None \<Rightarrow> score)
                            else score
                        | None \<Rightarrow> score)
                   | None \<Rightarrow> score)
             else score);
          isUrgent = isUrgentJob workOrder;
          score =
            (if isUrgent \<and> (case hourly_rate tech of Some rate \<Rightarrow> rate \<noteq> 0 \<and> rate \<ge> 30 | None \<Rightarrow> False)
             then score + 15 else score)
      in score)"

text \<open>A ranked technician: the profile with its score and workload. The comparator
  \<^verbatim>\<open>(a, b) => b.score - a.score\<close> sorts by descending score, and the sort is stable.\<close>

record ScoredTech =
  profile :: TechProfile
  score :: int
  workload :: TechWorkload



section \<open>The scoring rules one by one\<close>

text \<open>
  The rules as the specification lists them, each as a function of its own inputs; the
  score computed by the code is compared with their sum below.
\<close>

definition workloadRule :: "nat \<Rightarrow> int" where
  "workloadRule n = (if n \<ge> 4 then - 50 else if n = 3 then - 30 else if n = 2 then - 15
                     else if n = 0 then 25 else 0)"

definition experienceRule :: "rat option \<Rightarrow> int" where
  "experienceRule rate =
     (case rate of
        None \<Rightarrow> 0
      | Some r \<Rightarrow> if r = 0 then 0 else if r \<ge> 35 then 15 else if r \<ge> 25 then 10 else 5)"

definition certificationRule :: "string list option \<Rightarrow> int" where
  "certificationRule certs = (case certs of None \<Rightarrow> 0 | Some cs \<Rightarrow> 5 * int (length cs))"

definition specialtyTier :: "string \<Rightarrow> string \<Rightarrow> int" where
  "specialtyTier jobText specialty =
     (if str_includes jobText (toLowerCase specialty) then 40
      else if matchesSpecialtyKeywords (toLowerCase specialty) jobText then 30
      else if matchesSpecialtyCategory (toLowerCase specialty) jobText then 20
      else 0)"

definition specialtyRule :: "string \<Rightarrow> string list option \<Rightarrow> int" where
  "specialtyRule jobText specs =
     (case specs of
        None \<Rightarrow> 0
      | Some ss \<Rightarrow>
          if ss = [] then 0
          else if list_all (\<lambda>s. specialtyTier jobText s = 0) ss then - 10
          else sum_list (map (specialtyTier jobText) ss))"

definition oldVehicle :: "StorageData \<Rightarrow> WorkOrder \<Rightarrow> bool" where
  "oldVehicle data workOrder =
     (vehicle_id workOrder \<noteq> [] \<and>
      (case find (\<lambda>v. vehicle_key v = vehicle_id workOrder) (vehicles data) of
         None \<Rightarrow> False
       | Some vehicle \<Rightarrow> (case year vehicle of None \<Rightarrow> False | Some y \<Rightarrow> y < 2010)))"

definition seniorRate :: "rat option \<Rightarrow> bool" where
  "seniorRate rate = (case rate of None \<Rightarrow> False | Some r \<Rightarrow> r \<ge> 30)"

definition vehicleAgeRule :: "StorageData \<Rightarrow> WorkOrder \<Rightarrow> rat option \<Rightarrow> int" where
  "vehicleAgeRule data workOrder rate =
     (if oldVehicle data workOrder \<and> seniorRate rate then 10 else 0)"

definition urgencyRule :: "WorkOrder \<Rightarrow> rat option \<Rightarrow> int" where
  "urgencyRule workOrder rate = (if isUrgentJob workOrder \<and> seniorRate rate then 15 else 0)"

section \<open>Example data\<close>

text \<open>A store with the seeded schedules and durations and three appointments on
  1 January 1970 (a Thursday): a cancelled one 08:00--08:30, a scheduled one 09:00--10:00,
  a confirmed one 09:30--10:30 and a scheduled one 12:00--12:30, during lunch.\<close>

definition example_appointments :: "Appointment list" where
  "example_appointments =
     [\<lparr>appt_id = ''A1'', scheduled_start = 28800000, scheduled_end = 30600000,
       appt_status = appt_cancelled\<rparr>,
      \<lparr>appt_id = ''A2'', scheduled_start = 32400000, scheduled_end = 36000000,
       appt_status = appt_scheduled\<rparr>,
      \<lparr>appt_id = ''A3'', scheduled_start = 34200000, scheduled_end = 37800000,
       appt_status = appt_confirmed\<rparr>,
      \<lparr>appt_id = ''A4'', scheduled_start = 43200000, scheduled_end = 45000000,
       appt_status = appt_scheduled\<rparr>]"

definition example_store :: "SchedulingData option" where
  "example_store =
     Some \<lparr>appointments = example_appointments, shop_schedules = getDefaultShopSchedule,
           service_durations = getDefaultServiceDurations\<rparr>"

text \<open>A store whose only schedule is a Thursday 08:00--10:00 without a lunch break, and
  one whose only schedule is a closed Thursday.\<close>

definition example_no_lunch_store :: "SchedulingData option" where
  "example_no_lunch_store =
     Some \<lparr>appointments = [],
           shop_schedules =
             [\<lparr>day_of_week = 4, open_time = ''08:00'', close_time = ''10:00'',
               lunch_start = None, lunch_end = None, is_closed = False\<rparr>],
           service_durations = getDefaultServiceDurations\<rparr>"


definition example_closed_store :: "SchedulingData option" where
  "example_closed_store =
     Some \<lparr>appointments = [],
           shop_schedules =
             [\<lparr>day_of_week = 4, open_time = ''08:00'', close_time = ''17:00'',
               lunch_start = None, lunch_end = None, is_closed = True\<rparr>],
           service_durations = getDefaultServiceDurations\<rparr>"


text \<open>
  A shop with seven active technicians and a retired one, a 2015 vehicle, and the job
  \<open>wo-1\<close> (``Brake noise and engine light''); four further open jobs are assigned to
  \<open>tech-c\<close>.
\<close>

definition example_job :: WorkOrder where
  "example_job =
     \<lparr>wo_id = ''wo-1'', vehicle_id = ''v-1'', wo_status = wo_pending, assigned_tech = None,
      customer_concern = Some ''Brake noise and engine light'', description = None\<rparr>"

definition example_tech :: "string \<Rightarrow> string list \<Rightarrow> string list \<Rightarrow> rat \<Rightarrow> bool \<Rightarrow> TechProfile" where
  "example_tech ident certs specs rate act =
     \<lparr>tech_id = ident, tech_name = ident, certifications = Some certs,
      specialties = Some specs, hourly_rate = Some rate, active = act\<rparr>"

definition example_shop :: StorageData where
  "example_shop =
     \<lparr>vehicles = [\<lparr>vehicle_key = ''v-1'', year = Some 2015\<rparr>],
      work_orders =
        example_job #
        map (\<lambda>(ident, st).
               \<lparr>wo_id = ident, vehicle_id = ''v-1'', wo_status = st,
                assigned_tech = Some ''tech-c'', customer_concern = None, description = None\<rparr>)
          [(''wo-2'', wo_pending), (''wo-3'', wo_in_progress), (''wo-4'', wo_pending),
           (''wo-5'', wo_in_progress)],
      tech_profiles =
        [example_tech ''tech-a'' [''ASE A1'', ''ASE A5'', ''ASE A8''] [''brake'', ''engine''] 40 True,
         example_tech ''tech-b'' [''ASE A1'', ''ASE A5'', ''ASE A8''] [''hvac'', ''brake''] 40 True,
         example_tech ''tech-c'' [''ASE A2''] [''transmission''] 28 True,
         example_tech ''tech-d'' [] [] 20 True,
         example_tech ''tech-e'' [''ASE A6''] [''electrical''] 36 True,
         example_tech ''tech-f'' [] [''tire''] 30 False,
         example_tech ''tech-g'' [''ASE A4''] [''suspension''] 25 True,
         example_tech ''tech-h'' [] [''engine''] 22 True]\<rparr>"

section \<open>Lemmas about the scan and the slot loop\<close>

lemma JSON_parse_other_fields [simp]:
  "appointments (JSON_parse saved) = appointments saved"
  "shop_schedules (JSON_parse saved) = shop_schedules saved"
  by (simp_all add: JSON_parse_def)

lemma conflictScan_iff:
  "(conflictScan apps s e \<noteq> None) =
     (\<exists>a \<in> set apps. appt_status a \<noteq> appt_cancelled \<and> s < scheduled_end a \<and>
        e > scheduled_start a)"
  by (induction apps) auto

lemma conflictScan_first:
  "\<forall>p \<in> set pre. appt_status p = appt_cancelled \<or>
       \<not> (s < scheduled_end p \<and> e > scheduled_start p) \<Longrightarrow>
   appt_status a \<noteq> appt_cancelled \<Longrightarrow> s < scheduled_end a \<Longrightarrow> e > scheduled_start a \<Longrightarrow>
   conflictScan (pre @ a # post) s e =
     Some \<lparr>conflict_type = double_booking, message_time = scheduled_start a,
           conflicting_appointment_id = Some (appt_id a)\<rparr>"
  by (induction pre) auto

lemma slotLoop_length_iff:
  "(i < length (slotLoop tz store sch sid dur endT cur)) =
   (cur + int i * 1800000 < endT \<and> cur + int i * 1800000 + dur * 60000 \<le> endT)"
proof (induction tz store sch sid dur endT cur arbitrary: i rule: slotLoop.induct)
  case (1 tz store sch sid dur endT cur)
  show ?case
  proof (cases "cur < endT \<and> cur + dur * 60000 \<le> endT")
    case False
    then have "slotLoop tz store sch sid dur endT cur = []"
      by (subst slotLoop_unfold) (auto simp: Let_def)
    with False show ?thesis by auto
  next
    case True
    then have unf: "slotLoop tz store sch sid dur endT cur =
        slotAt tz store sch sid cur (cur + dur * 60000) #
        slotLoop tz store sch sid dur endT (cur + 1800000)"
      by (subst slotLoop_unfold) (auto simp: Let_def setMinutes_plus_30)
    show ?thesis
    proof (cases i)
      case 0
      with True unf show ?thesis by simp
    next
      case (Suc j)
      have "(j < length (slotLoop tz store sch sid dur endT (cur + 1800000))) =
          (cur + 1800000 + int j * 1800000 < endT \<and>
           cur + 1800000 + int j * 1800000 + dur * 60000 \<le> endT)"
        using "1.IH" [of "cur + dur * 60000" j] True by (simp add: setMinutes_plus_30)
      with Suc unf show ?thesis by (simp add: algebra_simps)
    qed
  qed
qed

lemma slotLoop_nth:
  "i < length (slotLoop tz store sch sid dur endT cur) \<Longrightarrow>
   slotLoop tz store sch sid dur endT cur ! i =
     slotAt tz store sch sid (cur + int i * 1800000) (cur + int i * 1800000 + dur * 60000)"
proof (induction tz store sch sid dur endT cur arbitrary: i rule: slotLoop.induct)
  case (1 tz store sch sid dur endT cur)
  show ?case
  proof (cases "cur < endT \<and> cur + dur * 60000 \<le> endT")
    case False
    then have "slotLoop tz store sch sid dur endT cur = []"
      by (subst slotLoop_unfold) (auto simp: Let_def)
    with "1.prems" show ?thesis by simp
  next
    case True
    then have unf: "slotLoop tz store sch sid dur endT cur =
        slotAt tz store sch sid cur (cur + dur * 60000) #
        slotLoop tz store sch sid dur endT (cur + 1800000)"
      by (subst slotLoop_unfold) (auto simp: Let_def setMinutes_plus_30)
    show ?thesis
    proof (cases i)
      case 0
      with unf show ?thesis by simp
    next
      case (Suc j)
      with "1.prems" unf have j: "j < length (slotLoop tz store sch sid dur endT (cur + 1800000))"
        by simp
      have "slotLoop tz store sch sid dur endT (cur + 1800000) ! j =
          slotAt tz store sch sid (cur + 1800000 + int j * 1800000)
            (cur + 1800000 + int j * 1800000 + dur * 60000)"
        using "1.IH" [of "cur + dur * 60000" j] True j by (simp add: setMinutes_plus_30)
      with Suc unf show ?thesis by (simp add: algebra_simps)
    qed
  qed
qed

section \<open>Lemmas about time-of-day strings\<close>

lemma digit_cases:
  "0 \<le> d \<Longrightarrow> d < 10 \<Longrightarrow>
   d = 0 \<or> d = 1 \<or> d = 2 \<or> d = 3 \<or> d = 4 \<or> d = 5 \<or> d = 6 \<or> d = 7 \<or> d = 8 \<or> d = (9::int)"
  by arith

lemma digit_val_digit_char: "0 \<le> d \<Longrightarrow> d < 10 \<Longrightarrow> digit_val (digit_char d) = Some d"
  using digit_cases [of d] by (auto simp: digit_val_def digit_char_def)

lemma digit_char_not_colon: "0 \<le> d \<Longrightarrow> d < 10 \<Longrightarrow> digit_char d \<noteq> CHR '':''"
  using digit_cases [of d] by (auto simp: digit_char_def)

lemma digit_char_less:
  "0 \<le> d \<Longrightarrow> d < 10 \<Longrightarrow> 0 \<le> d' \<Longrightarrow> d' < 10 \<Longrightarrow> (digit_char d < digit_char d') = (d < d')"
  using digit_cases [of d] digit_cases [of d'] by (auto simp: digit_char_def)

lemma digit_char_eq:
  "0 \<le> d \<Longrightarrow> d < 10 \<Longrightarrow> 0 \<le> d' \<Longrightarrow> d' < 10 \<Longrightarrow> (digit_char d = digit_char d') = (d = d')"
  using digit_cases [of d] digit_cases [of d'] by (auto simp: digit_char_def)

lemma Number_pad2: "0 \<le> n \<Longrightarrow> n < 100 \<Longrightarrow> Number (pad2 n) = Some n"
proof -
  assume n: "0 \<le> n" "n < 100"
  then have a: "0 \<le> n div 10" "n div 10 < 10" "0 \<le> n mod 10" "n mod 10 < 10"
    by auto
  then show ?thesis
    by (simp add: Number_def pad2_def digit_val_digit_char)
qed

lemma split_colon_hhmm:
  "0 \<le> h \<Longrightarrow> h < 100 \<Longrightarrow> 0 \<le> m \<Longrightarrow> m < 100 \<Longrightarrow> split_colon (hhmm h m) = [pad2 h, pad2 m]"
proof -
  assume n: "0 \<le> h" "h < 100" "0 \<le> m" "m < 100"
  then have a: "0 \<le> h div 10" "h div 10 < 10" "0 \<le> h mod 10" "h mod 10 < 10"
     "0 \<le> m div 10" "m div 10 < 10" "0 \<le> m mod 10" "m mod 10 < 10"
    by auto
  then show ?thesis
    by (simp add: hhmm_def pad2_def digit_char_not_colon)
qed

lemma hourMinute_hhmm:
  "0 \<le> h \<Longrightarrow> h < 100 \<Longrightarrow> 0 \<le> m \<Longrightarrow> m < 100 \<Longrightarrow> hourMinute (hhmm h m) = (Some h, Some m)"
  by (simp add: hourMinute_def split_colon_hhmm Number_pad2)

lemma pad2_less:
  assumes "0 \<le> a" "a < 100" "0 \<le> b" "b < 100"
  shows "(pad2 a @ x < pad2 b @ y) = (a < b \<or> a = b \<and> x < y)"
proof -
  have r: "0 \<le> a div 10" "a div 10 < 10" "0 \<le> a mod 10" "a mod 10 < 10"
     "0 \<le> b div 10" "b div 10 < 10" "0 \<le> b mod 10" "b mod 10 < 10"
    using assms by auto
  have a: "a = 10 * (a div 10) + a mod 10" and b: "b = 10 * (b div 10) + b mod 10"
    by simp_all
  have "(pad2 a @ x < pad2 b @ y) =
      (a div 10 < b div 10 \<or> a div 10 = b div 10 \<and>
        (a mod 10 < b mod 10 \<or> a mod 10 = b mod 10 \<and> x < y))"
    using r by (simp add: pad2_def digit_char_less digit_char_eq)
  also have "\<dots> = (a < b \<or> a = b \<and> x < y)"
    using r a b by arith
  finally show ?thesis .
qed

lemma hhmm_less:
  assumes "0 \<le> h" "h < 24" "0 \<le> m" "m < 60" "0 \<le> h'" "h' < 24" "0 \<le> m'" "m' < 60"
  shows "(hhmm h m < hhmm h' m') = (60 * h + m < 60 * h' + m')"
proof -
  have "(hhmm h m < hhmm h' m') = (h < h' \<or> h = h' \<and> m < m')"
    using assms pad2_less [of h h' "'':'' @ pad2 m" "'':'' @ pad2 m'"]
      pad2_less [of m m' "[]" "[]"]
    by (simp add: hhmm_def)
  also have "\<dots> = (60 * h + m < 60 * h' + m')"
    using assms by auto
  finally show ?thesis .
qed

lemma HourFromTime_range: "0 \<le> HourFromTime t \<and> HourFromTime t < 24"
  by (simp add: HourFromTime_def)

lemma MinFromTime_range: "0 \<le> MinFromTime t \<and> MinFromTime t < 60"
  by (simp add: MinFromTime_def)

lemma toTimeString5_less:
  assumes "0 \<le> h" "h < 24" "0 \<le> m" "m < 60"
  shows "(toTimeString5 tz t < hhmm h m) = (minuteOfDay tz t < 60 * h + m)"
  using assms HourFromTime_range [of "LocalTime tz t"] MinFromTime_range [of "LocalTime tz t"]
  by (simp add: toTimeString5_def minuteOfDay_def Let_def hhmm_less)

lemma less_toTimeString5:
  assumes "0 \<le> h" "h < 24" "0 \<le> m" "m < 60"
  shows "(hhmm h m < toTimeString5 tz t) = (60 * h + m < minuteOfDay tz t)"
  using assms HourFromTime_range [of "LocalTime tz t"] MinFromTime_range [of "LocalTime tz t"]
  by (simp add: toTimeString5_def minuteOfDay_def Let_def hhmm_less)

lemma hhmm_not_empty: "hhmm h m \<noteq> []"
  by (simp add: hhmm_def pad2_def)

lemma minutes_of_local_time:
  assumes "0 \<le> x" "x < 1440"
  shows "HourFromTime (D * msPerDay + x * msPerMinute) = x div 60"
    and "MinFromTime (D * msPerDay + x * msPerMinute) = x mod 60"
proof -
  have e: "D * 86400000 + x * 60000 = (D * 1440 + x) * 60000"
    by simp
  have q: "(D * 86400000 + x * 60000) div 60000 = D * 1440 + x"
    unfolding e by simp
  have "(D * 86400000 + x * 60000) div 3600000 = (D * 1440 + x) div 60"
    using zdiv_zmult2_eq [of 60 "D * 86400000 + x * 60000" 60000] q by simp
  also have "\<dots> = D * 24 + x div 60"
    by simp
  finally have h: "(D * 86400000 + x * 60000) div 3600000 = D * 24 + x div 60" .
  define y where "y = x div 60"
  have r: "0 \<le> y" "y < 24"
    using assms unfolding y_def by auto
  have "HourFromTime (D * msPerDay + x * msPerMinute) =
      ((D * 86400000 + x * 60000) div 3600000) mod 24"
    by (simp only: HourFromTime_def msPerDay_def msPerMinute_def msPerHour_def)
  also have "\<dots> = (D * 24 + y) mod 24"
    by (simp only: h y_def)
  also have "\<dots> = y mod 24"
    by simp
  also have "\<dots> = y"
    using r by simp
  finally show "HourFromTime (D * msPerDay + x * msPerMinute) = x div 60"
    by (simp only: y_def)
  have "MinFromTime (D * msPerDay + x * msPerMinute) =
      ((D * 86400000 + x * 60000) div 60000) mod 60"
    by (simp only: MinFromTime_def msPerDay_def msPerMinute_def)
  also have "\<dots> = (D * 1440 + x) mod 60"
    by (simp only: q)
  also have "\<dots> = (x + (D * 24) * 60) mod 60"
    by (simp add: algebra_simps)
  also have "\<dots> = x mod 60"
    by (rule mod_mult_self1)
  finally show "MinFromTime (D * msPerDay + x * msPerMinute) = x mod 60" .
qed

lemma LocalTime_setHours:
  "LocalTime tz (setHours tz date h m 0 0 + k * 60000) =
     Day (LocalTime tz date) * msPerDay + (60 * h + m + k) * msPerMinute"
  by (simp add: LocalTime_def setHours_def UTC_of_def MakeDate_def MakeTime_def
      msPerHour_def msPerMinute_def algebra_simps)

lemma minuteOfDay_setHours:
  assumes "0 \<le> 60 * h + m + k" "60 * h + m + k < 1440"
  shows "minuteOfDay tz (setHours tz date h m 0 0 + k * 60000) = 60 * h + m + k"
  using assms
  by (simp add: minuteOfDay_def LocalTime_setHours minutes_of_local_time)

lemma toTimeString5_setHours:
  assumes "0 \<le> 60 * h + m + k" "60 * h + m + k < 1440"
  shows "toTimeString5 tz (setHours tz date h m 0 0 + k * 60000) =
     hhmm ((60 * h + m + k) div 60) ((60 * h + m + k) mod 60)"
  using assms
  by (simp add: toTimeString5_def Let_def LocalTime_setHours minutes_of_local_time)

lemma slot_of_result:
  assumes "slot \<in> set (getAvailableTimeSlots tz store date serviceId vehicleYear)"
  shows "\<exists>schedule cur e. getShopScheduleForDay tz store date = Some schedule \<and>
           slot = slotAt tz store schedule serviceId cur e"
proof -
  from assms obtain schedule where sch: "getShopScheduleForDay tz store date = Some schedule"
    by (cases "getShopScheduleForDay tz store date") (auto simp: getAvailableTimeSlots_def)
  with assms have open': "\<not> is_closed schedule"
    by (cases "is_closed schedule") (auto simp: getAvailableTimeSlots_def)
  obtain oh om ch cm where hm: "hourMinute (open_time schedule) = (oh, om)"
    "hourMinute (close_time schedule) = (ch, cm)"
    by (metis surj_pair)
  from assms sch open' hm obtain oh' om' ch' cm' where
    some: "oh = Some oh'" "om = Some om'" "ch = Some ch'" "cm = Some cm'"
    by (cases oh; cases om; cases ch; cases cm) (auto simp: getAvailableTimeSlots_def)
  from assms sch open' hm some
  have mem: "slot \<in> set (slotLoop tz store schedule serviceId
        (calculateServiceDuration store serviceId vehicleYear)
        (setHours tz date ch' cm' 0 0) (setHours tz date oh' om' 0 0))"
    by (simp add: getAvailableTimeSlots_def)
  from mem obtain i where "i < length (slotLoop tz store schedule serviceId
        (calculateServiceDuration store serviceId vehicleYear)
        (setHours tz date ch' cm' 0 0) (setHours tz date oh' om' 0 0))"
    and "slot = slotLoop tz store schedule serviceId
        (calculateServiceDuration store serviceId vehicleYear)
        (setHours tz date ch' cm' 0 0) (setHours tz date oh' om' 0 0) ! i"
    by (auto simp: in_set_conv_nth)
  with sch show ?thesis
    by (auto simp: slotLoop_nth)
qed

lemma slotAt_fields:
  "slot_start (slotAt tz store schedule serviceId cur e) = cur"
  "slot_end (slotAt tz store schedule serviceId cur e) = e"
  "available_techs (slotAt tz store schedule serviceId cur e) = [''tech-001'', ''tech-002'']"
  by (simp_all add: slotAt_def Let_def getAvailableTechs_def split: prod.splits)

lemma slotAt_decision:
  assumes "lunch_start schedule = Some (hhmm lsh lsm)" "0 \<le> lsh" "lsh < 24" "0 \<le> lsm" "lsm < 60"
    and "lunch_end schedule = Some (hhmm leh lem)" "0 \<le> leh" "leh < 24" "0 \<le> lem" "lem < 60"
  shows "(let slot = slotAt tz store schedule serviceId cur e in
     if minuteOfDay tz cur < 60 * leh + lem \<and> 60 * lsh + lsm < minuteOfDay tz e
     then \<not> available slot \<and> reason slot = Some ''lunch''
     else if checkAppointmentConflict store cur e \<noteq> None
     then \<not> available slot \<and> reason slot = Some ''booked''
     else available slot \<and> reason slot = None)"
  using assms
  by (auto simp: slotAt_def Let_def toTimeString5_less less_toTimeString5 hhmm_not_empty
      split: option.splits)

lemma slotAt_no_lunch:
  assumes "lunch_start schedule = None \<or> lunch_start schedule = Some [] \<or>
           lunch_end schedule = None \<or> lunch_end schedule = Some []"
  shows "(let slot = slotAt tz store schedule serviceId cur e in
     if checkAppointmentConflict store cur e \<noteq> None
     then \<not> available slot \<and> reason slot = Some ''booked''
     else available slot \<and> reason slot = None)"
  using assms
  by (auto simp: slotAt_def Let_def split: option.splits)

lemma result_is_loop:
  assumes "getShopScheduleForDay tz store date = Some schedule" "\<not> is_closed schedule"
    and "open_time schedule = hhmm oh om" "0 \<le> oh" "oh < 24" "0 \<le> om" "om < 60"
    and "close_time schedule = hhmm ch cm" "0 \<le> ch" "ch < 24" "0 \<le> cm" "cm < 60"
  shows "getAvailableTimeSlots tz store date serviceId vehicleYear =
     slotLoop tz store schedule serviceId (calculateServiceDuration store serviceId vehicleYear)
       (setHours tz date ch cm 0 0) (setHours tz date oh om 0 0)"
  using assms by (simp add: getAvailableTimeSlots_def hourMinute_hhmm)

section \<open>Lemmas about numbers and durations\<close>

lemma nearest_double_values:
  "nearest_double 1 = 1" "nearest_double 10 = 10" "nearest_double 25 = 25"
  "nearest_double 30 = 30" "nearest_double 45 = 45" "nearest_double 60 = 60"
  "nearest_double 90 = 90" "nearest_double 135 = 135" "nearest_double (15 / 10) = 3 / 2"
  "nearest_double (3 / 2) = 3 / 2"
  by code_simp+









section \<open>Lemmas about the slots of a day\<close>

lemma toTimeString5_eq_hhmm:
  assumes "toTimeString5 tz t = hhmm h m" "0 \<le> h" "h < 24" "0 \<le> m" "m < 60"
  shows "minuteOfDay tz t = 60 * h + m"
proof -
  have a: "\<not> toTimeString5 tz t < hhmm h m" and b: "\<not> hhmm h m < toTimeString5 tz t"
    using assms(1) by simp_all
  from a have "\<not> minuteOfDay tz t < 60 * h + m"
    using toTimeString5_less [OF assms(2-5), of tz t] by simp
  moreover from b have "\<not> 60 * h + m < minuteOfDay tz t"
    using less_toTimeString5 [OF assms(2-5), of tz t] by simp
  ultimately show ?thesis by linarith
qed

lemma setHours_toTimeString5:
  assumes "0 \<le> h" "h < 24" "0 \<le> m" "m < 60"
  shows "toTimeString5 tz (setHours tz date h m 0 0) = hhmm h m"
proof -
  have r: "0 \<le> 60 * h + m + 0" "60 * h + m + 0 < 1440"
    using assms by auto
  have d: "(60 * h + m + 0) div 60 = h" "(60 * h + m + 0) mod 60 = m"
    using assms by auto
  show ?thesis
    using toTimeString5_setHours [OF r, of tz date] by (simp only: d) simp
qed

lemma slotLoop_sorted:
  "sorted_wrt (<) (map slot_start (slotLoop tz store sch sid dur endT cur))"
proof -
  have "\<And>i j. i < j \<Longrightarrow> j < length (slotLoop tz store sch sid dur endT cur) \<Longrightarrow>
      slot_start (slotLoop tz store sch sid dur endT cur ! i) <
      slot_start (slotLoop tz store sch sid dur endT cur ! j)"
    by (simp add: slotLoop_nth slotAt_fields)
  then show ?thesis
    by (simp add: sorted_wrt_iff_nth_less)
qed

lemma slotLoop_shape:
  assumes "i < length (slotLoop tz store sch sid dur endT cur)"
  shows "slot_start (slotLoop tz store sch sid dur endT cur ! i) = cur + int i * (30 * msPerMinute) \<and>
     slot_end (slotLoop tz store sch sid dur endT cur ! i) -
       slot_start (slotLoop tz store sch sid dur endT cur ! i) = dur * msPerMinute \<and>
     slot_end (slotLoop tz store sch sid dur endT cur ! i) \<le> endT"
proof -
  from assms have "cur + int i * 1800000 + dur * 60000 \<le> endT"
    by (simp only: slotLoop_length_iff)
  with assms show ?thesis
    by (simp add: slotLoop_nth slotAt_fields msPerMinute_def)
qed

lemma hhmm_literals:
  "hhmm 8 0 = ''08:00''" "hhmm 17 0 = ''17:00''" "hhmm 12 0 = ''12:00''" "hhmm 13 0 = ''13:00''"
  "hhmm 11 30 = ''11:30''" "hhmm 11 45 = ''11:45''" "hhmm 9 0 = ''09:00''" "hhmm 9 30 = ''09:30''"
  by (simp_all add: hhmm_def pad2_def digit_char_def)

lemma example_thursday:
  "getShopScheduleForDay 0 example_store 0 =
     Some \<lparr>day_of_week = 4, open_time = ''08:00'', close_time = ''17:00'',
           lunch_start = Some ''12:00'', lunch_end = Some ''13:00'', is_closed = False\<rparr>"
  "getShopScheduleForDay 0 None 0 =
     Some \<lparr>day_of_week = 4, open_time = ''08:00'', close_time = ''17:00'',
           lunch_start = Some ''12:00'', lunch_end = Some ''13:00'', is_closed = False\<rparr>"
  by (simp_all add: getShopScheduleForDay_def example_store_def getSchedulingData_def
      getDefaultShopSchedule_def getDay_def WeekDay_def Day_def LocalTime_def msPerDay_def)

lemma example_oil_change:
  "calculateServiceDuration example_store ''oil-change'' None = 30"
  "calculateServiceDuration None ''oil-change'' None = 30"
  by (simp_all add: calculateServiceDuration_def getServiceDuration_def example_store_def
      getSchedulingData_def JSON_parse_def getDefaultServiceDurations_def asDoubles_def
      nearest_double_values)

lemma example_setHours:
  "setHours 0 0 8 0 0 0 = 28800000" "setHours 0 0 17 0 0 0 = 61200000"
  by (simp_all add: setHours_def UTC_of_def MakeDate_def MakeTime_def Day_def LocalTime_def
      msPerDay_def msPerHour_def msPerMinute_def)

lemma example_slots_loop:
  "getAvailableTimeSlots 0 example_store 0 ''oil-change'' None =
     slotLoop 0 example_store
       \<lparr>day_of_week = 4, open_time = ''08:00'', close_time = ''17:00'',
        lunch_start = Some ''12:00'', lunch_end = Some ''13:00'', is_closed = False\<rparr>
       ''oil-change'' 30 61200000 28800000"
  "getAvailableTimeSlots 0 None 0 ''oil-change'' None =
     slotLoop 0 None
       \<lparr>day_of_week = 4, open_time = ''08:00'', close_time = ''17:00'',
        lunch_start = Some ''12:00'', lunch_end = Some ''13:00'', is_closed = False\<rparr>
       ''oil-change'' 30 61200000 28800000"
  using result_is_loop [OF example_thursday(1), of 8 0 17 0 "''oil-change''" None]
    result_is_loop [OF example_thursday(2), of 8 0 17 0 "''oil-change''" None]
  by (simp_all add: hhmm_literals example_oil_change example_setHours)

lemma example_nth:
  "i < 18 \<Longrightarrow> getAvailableTimeSlots 0 example_store 0 ''oil-change'' None ! i =
     slotAt 0 example_store
       \<lparr>day_of_week = 4, open_time = ''08:00'', close_time = ''17:00'',
        lunch_start = Some ''12:00'', lunch_end = Some ''13:00'', is_closed = False\<rparr>
       ''oil-change'' (28800000 + int i * 1800000) (28800000 + int i * 1800000 + 1800000)"
  "i < 18 \<Longrightarrow> i < length (getAvailableTimeSlots 0 example_store 0 ''oil-change'' None)"
  by (simp_all add: example_slots_loop slotLoop_nth slotLoop_length_iff)

lemma example_minutes:
  "minuteOfDay 0 28800000 = 480" "minuteOfDay 0 30600000 = 510"
  "minuteOfDay 0 32400000 = 540" "minuteOfDay 0 34200000 = 570"
  "minuteOfDay 0 43200000 = 720" "minuteOfDay 0 45000000 = 750"
  by (simp_all add: minuteOfDay_def HourFromTime_def MinFromTime_def LocalTime_def
      msPerHour_def msPerMinute_def)

lemma setHours_close_open_9h:
  "setHours tz date 17 0 0 0 = setHours tz date 8 0 0 0 + 32400000"
  by (simp add: setHours_def UTC_of_def MakeDate_def MakeTime_def msPerHour_def msPerMinute_def)

lemma length_eqI: "(\<And>i. (i < n) = (i < (m::nat))) \<Longrightarrow> n = m"
  by (metis nat_neq_iff)

lemma lunch_scenario:
  fixes serviceId :: string and vehicleYear :: "int option"
  assumes sch: "getShopScheduleForDay tz store date = Some schedule" "\<not> is_closed schedule"
    and times: "open_time schedule = ''08:00''" "close_time schedule = ''17:00''"
    and lunch: "lunch_start schedule = Some ''12:00''" "lunch_end schedule = Some ''13:00''"
    and dur: "calculateServiceDuration store serviceId vehicleYear = 30"
    and none: "appointments (getSchedulingData store) = []"
  defines "slots \<equiv> getAvailableTimeSlots tz store date serviceId vehicleYear"
  shows "length slots = 18"
    and "i < 18 \<Longrightarrow> slot_start (slots ! i) = setHours tz date 8 0 0 0 + (30 * int i) * 60000"
    and "i < 18 \<Longrightarrow> slot_end (slots ! i) = setHours tz date 8 0 0 0 + (30 * int i + 30) * 60000"
    and "i < 18 \<Longrightarrow> minuteOfDay tz (slot_start (slots ! i)) = 480 + 30 * int i"
    and "i < 18 \<Longrightarrow> minuteOfDay tz (slot_end (slots ! i)) = 510 + 30 * int i"
    and "i < 18 \<Longrightarrow> available (slots ! i) = (i \<noteq> 8 \<and> i \<noteq> 9)"
    and "i < 18 \<Longrightarrow> reason (slots ! i) = (if i = 8 \<or> i = 9 then Some ''lunch'' else None)"
proof -
  define openT where "openT = setHours tz date 8 0 0 0"
  have loop: "slots = slotLoop tz store schedule serviceId 30 (openT + 32400000) openT"
    unfolding slots_def openT_def
    using result_is_loop [OF sch, of 8 0 17 0 serviceId vehicleYear] times dur
    by (simp add: hhmm_literals setHours_close_open_9h)
  have len_iff: "\<And>j. (j < length slots) = (j < 18)"
    unfolding loop slotLoop_length_iff by auto
  then show len: "length slots = 18"
    by (rule length_eqI)
  have nth: "\<And>j. j < 18 \<Longrightarrow> slots ! j =
      slotAt tz store schedule serviceId (openT + (30 * int j) * 60000)
        (openT + (30 * int j + 30) * 60000)"
  proof -
    fix j :: nat
    assume "j < 18"
    then have "j < length slots" by (simp add: len_iff)
    then have "slots ! j = slotAt tz store schedule serviceId (openT + int j * 1800000)
        (openT + int j * 1800000 + 30 * 60000)"
      unfolding loop by (rule slotLoop_nth)
    then show "slots ! j = slotAt tz store schedule serviceId (openT + (30 * int j) * 60000)
        (openT + (30 * int j + 30) * 60000)"
      by (simp add: algebra_simps)
  qed
  have ms: "\<And>j. j < 18 \<Longrightarrow> minuteOfDay tz (openT + (30 * int j) * 60000) = 480 + 30 * int j"
  proof -
    fix j :: nat
    assume "j < 18"
    then have r: "0 \<le> 60 * 8 + 0 + 30 * int j" "60 * 8 + 0 + 30 * int j < 1440"
      by auto
    from minuteOfDay_setHours [OF r, of tz date]
    show "minuteOfDay tz (openT + (30 * int j) * 60000) = 480 + 30 * int j"
      unfolding openT_def by simp
  qed
  have me: "\<And>j. j < 18 \<Longrightarrow>
      minuteOfDay tz (openT + (30 * int j + 30) * 60000) = 510 + 30 * int j"
  proof -
    fix j :: nat
    assume "j < 18"
    then have r: "0 \<le> 60 * 8 + 0 + (30 * int j + 30)" "60 * 8 + 0 + (30 * int j + 30) < 1440"
      by auto
    from minuteOfDay_setHours [OF r, of tz date]
    show "minuteOfDay tz (openT + (30 * int j + 30) * 60000) = 510 + 30 * int j"
      unfolding openT_def by simp
  qed
  have free: "\<And>s e. checkAppointmentConflict store s e = None"
    by (simp add: checkAppointmentConflict_def none)
  have dec: "\<And>j. j < 18 \<Longrightarrow>
      (if 480 + 30 * int j < 780 \<and> 720 < 510 + 30 * int j
       then \<not> available (slots ! j) \<and> reason (slots ! j) = Some ''lunch''
       else available (slots ! j) \<and> reason (slots ! j) = None)"
  proof -
    fix j :: nat
    assume j: "j < 18"
    have l: "lunch_start schedule = Some (hhmm 12 0)" "lunch_end schedule = Some (hhmm 13 0)"
      using lunch by (simp_all add: hhmm_literals)
    have n: "(0::int) \<le> 12" "(12::int) < 24" "(0::int) \<le> 0" "(0::int) < 60"
      "(0::int) \<le> 13" "(13::int) < 24"
      by simp_all
    define a where "a = openT + (30 * int j) * 60000"
    define b where "b = openT + (30 * int j + 30) * 60000"
    have nj: "slots ! j = slotAt tz store schedule serviceId a b"
      unfolding a_def b_def by (rule nth [OF j])
    have ma: "minuteOfDay tz a = 480 + 30 * int j"
      unfolding a_def by (rule ms [OF j])
    have mb: "minuteOfDay tz b = 510 + 30 * int j"
      unfolding b_def by (rule me [OF j])
    from slotAt_decision [OF l(1) n(1-4) l(2) n(5,6) n(3,4), of tz store serviceId a b]
    show "(if 480 + 30 * int j < 780 \<and> 720 < 510 + 30 * int j
       then \<not> available (slots ! j) \<and> reason (slots ! j) = Some ''lunch''
       else available (slots ! j) \<and> reason (slots ! j) = None)"
      by (simp add: Let_def nj ma mb free)
  qed
  show "i < 18 \<Longrightarrow> slot_start (slots ! i) = setHours tz date 8 0 0 0 + (30 * int i) * 60000"
    by (simp add: nth slotAt_fields openT_def)
  show "i < 18 \<Longrightarrow> slot_end (slots ! i) = setHours tz date 8 0 0 0 + (30 * int i + 30) * 60000"
    by (simp add: nth slotAt_fields openT_def)
  show "i < 18 \<Longrightarrow> minuteOfDay tz (slot_start (slots ! i)) = 480 + 30 * int i"
    using ms [of i] by (simp add: nth slotAt_fields)
  show "i < 18 \<Longrightarrow> minuteOfDay tz (slot_end (slots ! i)) = 510 + 30 * int i"
    using me [of i] by (simp add: nth slotAt_fields)
  have lunch_iff: "(480 + 30 * int i < 780 \<and> 720 < 510 + 30 * int i) = (i = 8 \<or> i = 9)"
    by auto
  show "i < 18 \<Longrightarrow> available (slots ! i) = (i \<noteq> 8 \<and> i \<noteq> 9)"
    using dec [of i] unfolding lunch_iff by (auto split: if_splits)
  show "i < 18 \<Longrightarrow> reason (slots ! i) = (if i = 8 \<or> i = 9 then Some ''lunch'' else None)"
    using dec [of i] unfolding lunch_iff by (auto split: if_splits)
qed

lemma lunch_scenario_no_1145:
  fixes serviceId :: string and vehicleYear :: "int option"
  assumes sch: "getShopScheduleForDay tz store date = Some schedule" "\<not> is_closed schedule"
    and times: "open_time schedule = ''08:00''" "close_time schedule = ''17:00''"
    and lunch: "lunch_start schedule = Some ''12:00''" "lunch_end schedule = Some ''13:00''"
    and dur: "calculateServiceDuration store serviceId vehicleYear = 30"
    and none: "appointments (getSchedulingData store) = []"
    and slot: "slot \<in> set (getAvailableTimeSlots tz store date serviceId vehicleYear)"
  shows "toTimeString5 tz (slot_start slot) \<noteq> ''11:45''"
proof
  assume eq: "toTimeString5 tz (slot_start slot) = ''11:45''"
  note sc = lunch_scenario [OF sch times lunch dur none]
  from slot obtain i where i: "i < 18"
    and s: "slot = getAvailableTimeSlots tz store date serviceId vehicleYear ! i"
    by (auto simp: in_set_conv_nth sc(1))
  have "minuteOfDay tz (slot_start slot) = 480 + 30 * int i"
    unfolding s by (rule sc(4) [OF i])
  moreover have "minuteOfDay tz (slot_start slot) = 60 * 11 + 45"
    by (rule toTimeString5_eq_hhmm) (simp_all add: eq hhmm_literals)
  ultimately have "2 * int i = 15"
    by simp
  then show False
    by presburger
qed

lemma lunch_scenario_strings:
  fixes serviceId :: string and vehicleYear :: "int option"
  assumes sch: "getShopScheduleForDay tz store date = Some schedule" "\<not> is_closed schedule"
    and times: "open_time schedule = ''08:00''" "close_time schedule = ''17:00''"
    and lunch: "lunch_start schedule = Some ''12:00''" "lunch_end schedule = Some ''13:00''"
    and dur: "calculateServiceDuration store serviceId vehicleYear = 30"
    and none: "appointments (getSchedulingData store) = []"
  defines "slots \<equiv> getAvailableTimeSlots tz store date serviceId vehicleYear"
  shows "toTimeString5 tz (slot_start (slots ! 0)) = ''08:00''"
    and "toTimeString5 tz (slot_start (slots ! 7)) = ''11:30''"
    and "toTimeString5 tz (slot_end (slots ! 7)) = ''12:00''"
    and "toTimeString5 tz (slot_start (slots ! 8)) = ''12:00''"
    and "toTimeString5 tz (slot_end (slots ! 8)) = ''12:30''"
proof -
  note sc = lunch_scenario [OF sch times lunch dur none, folded slots_def]
  have lit: "hhmm 12 30 = ''12:30''"
    by (simp add: hhmm_def pad2_def digit_char_def)
  have ts: "\<And>k. 0 \<le> k \<Longrightarrow> k < 960 \<Longrightarrow>
      toTimeString5 tz (setHours tz date 8 0 0 0 + k * 60000) =
        hhmm ((480 + k) div 60) ((480 + k) mod 60)"
    using toTimeString5_setHours [of 8 0 _ tz date] by simp
  show "toTimeString5 tz (slot_start (slots ! 0)) = ''08:00''"
    using sc(2) [of 0] ts [of 0] by (simp add: hhmm_literals)
  show "toTimeString5 tz (slot_start (slots ! 7)) = ''11:30''"
    using sc(2) [of 7] ts [of 210] by (simp add: hhmm_literals)
  show "toTimeString5 tz (slot_end (slots ! 7)) = ''12:00''"
    using sc(3) [of 7] ts [of 240] by (simp add: hhmm_literals)
  show "toTimeString5 tz (slot_start (slots ! 8)) = ''12:00''"
    using sc(2) [of 8] ts [of 240] by (simp add: hhmm_literals)
  show "toTimeString5 tz (slot_end (slots ! 8)) = ''12:30''"
    using sc(3) [of 8] ts [of 270] by (simp add: hhmm_literals lit)
qed

lemma seeded_thursday_scenario:
  "calculateServiceDuration None ''oil-change'' None = 30"
  "appointments (getSchedulingData None) = []"
  by (simp_all add: example_oil_change getSchedulingData_def)

lemma Day_of_local_time:
  assumes "0 \<le> x" "x < 1440"
  shows "Day (D * msPerDay + x * msPerMinute) = D"
proof -
  have "0 \<le> x * 60000" "x * 60000 < 86400000"
    using assms by auto
  then have z: "x * 60000 div 86400000 = 0"
    by (rule div_pos_pos_trivial)
  have "(x * 60000 + D * 86400000) div 86400000 = D + x * 60000 div 86400000"
    by (rule div_mult_self1) simp
  with z have "(x * 60000 + D * 86400000) div 86400000 = D"
    by (simp only: add_0_right)
  then show ?thesis
    by (simp only: Day_def msPerDay_def msPerMinute_def add.commute)
qed

lemma Day_setHours:
  assumes "0 \<le> h" "h < 24" "0 \<le> m" "m < 60"
  shows "Day (LocalTime tz (setHours tz date h m 0 0)) = Day (LocalTime tz date)"
proof -
  have r: "0 \<le> 60 * h + m + 0" "60 * h + m + 0 < 1440"
    using assms by auto
  have "LocalTime tz (setHours tz date h m 0 0) =
      Day (LocalTime tz date) * msPerDay + (60 * h + m + 0) * msPerMinute"
    using LocalTime_setHours [of tz date h m 0] by simp
  then show ?thesis
    by (simp only: Day_of_local_time [OF r])
qed

lemma example_no_lunch:
  "getShopScheduleForDay 0 example_no_lunch_store 0 =
     Some \<lparr>day_of_week = 4, open_time = ''08:00'', close_time = ''10:00'',
           lunch_start = None, lunch_end = None, is_closed = False\<rparr>"
  "calculateServiceDuration example_no_lunch_store ''oil-change'' None = 30"
  "checkAppointmentConflict example_no_lunch_store s e = None"
  "setHours 0 0 10 0 0 0 = 36000000"
  "hhmm 10 0 = ''10:00''"
proof -
  show "calculateServiceDuration example_no_lunch_store ''oil-change'' None = 30"
    by (simp add: calculateServiceDuration_def getServiceDuration_def
        example_no_lunch_store_def getSchedulingData_def JSON_parse_def
        getDefaultServiceDurations_def asDoubles_def nearest_double_values)
qed (simp_all add: getShopScheduleForDay_def example_no_lunch_store_def getSchedulingData_def
      getDay_def WeekDay_def Day_def LocalTime_def msPerDay_def checkAppointmentConflict_def
      setHours_def UTC_of_def MakeDate_def MakeTime_def msPerHour_def msPerMinute_def
      hhmm_def pad2_def digit_char_def)

lemma example_no_lunch_first:
  "0 < length (getAvailableTimeSlots 0 example_no_lunch_store 0 ''oil-change'' None)"
proof -
  have "getAvailableTimeSlots 0 example_no_lunch_store 0 ''oil-change'' None =
     slotLoop 0 example_no_lunch_store
       \<lparr>day_of_week = 4, open_time = ''08:00'', close_time = ''10:00'',
        lunch_start = None, lunch_end = None, is_closed = False\<rparr>
       ''oil-change'' 30 36000000 28800000"
    using result_is_loop [OF example_no_lunch(1), of 8 0 10 0 "''oil-change''" None]
    by (simp add: hhmm_literals example_no_lunch example_setHours)
  then show ?thesis
    by (simp only: slotLoop_length_iff) simp
qed

section \<open>Lemmas about the score and the ranking\<close>

lemma specialtyTier_nonneg: "0 \<le> specialtyTier jt s"
  by (simp add: specialtyTier_def)

lemma specialtyStep_tier:
  "specialtyStep jt (s, m) x = (s + specialtyTier jt x, m \<or> specialtyTier jt x \<noteq> 0)"
  by (simp add: specialtyStep_def specialtyTier_def Let_def)

lemma foldl_specialtyStep:
  "foldl (specialtyStep jt) (s, m) xs =
     (s + sum_list (map (specialtyTier jt) xs), m \<or> \<not> list_all (\<lambda>x. specialtyTier jt x = 0) xs)"
  by (induction xs arbitrary: s m) (auto simp: specialtyStep_tier)

lemma sum_tiers_zero:
  "list_all (\<lambda>x. specialtyTier jt x = 0) xs \<Longrightarrow> sum_list (map (specialtyTier jt) xs) = 0"
  by (induction xs) auto

lemma specialty_part:
  "(case specs of
      Some ss \<Rightarrow>
        if length ss > 0
        then (case foldl (specialtyStep jt) (s, False) ss of
                (score', specialtyMatch) \<Rightarrow> if \<not> specialtyMatch then score' - 10 else score')
        else s
    | None \<Rightarrow> s) = s + specialtyRule jt specs"
  by (cases specs) (auto simp: specialtyRule_def foldl_specialtyStep sum_tiers_zero)

lemma workload_part:
  "(if n \<ge> 4 then s - 50 else if n \<ge> 3 then s - 30 else if n \<ge> 2 then s - 15
    else if n = 0 then s + 25 else s) = s + workloadRule (n::nat)"
  by (auto simp: workloadRule_def)

lemma experience_part:
  "(case rate of
      Some r \<Rightarrow> if r \<noteq> 0 then (if r \<ge> 35 then s + 15 else if r \<ge> 25 then s + 10 else s + 5) else s
    | None \<Rightarrow> s) = s + experienceRule rate"
  by (cases rate) (auto simp: experienceRule_def)

lemma certification_part:
  "(case certs of
      Some cs \<Rightarrow> if length cs > 0 then s + int (length cs) * 5 else s
    | None \<Rightarrow> s) = s + certificationRule certs"
  by (cases certs) (auto simp: certificationRule_def)

lemma vehicle_part:
  "(if vehicle_id workOrder \<noteq> []
    then (case find (\<lambda>v. vehicle_key v = vehicle_id workOrder) (vehicles data) of
            Some vehicle \<Rightarrow>
              (case year vehicle of
                 Some y \<Rightarrow>
                   if y < 2010
                   then (case rate of
                           Some r \<Rightarrow> if r \<noteq> 0 \<and> r \<ge> 30 then s + 10 else s
                         | None \<Rightarrow> s)
                   else s
               | None \<Rightarrow> s)
          | None \<Rightarrow> s)
    else s) = s + vehicleAgeRule data workOrder rate"
  by (auto simp: vehicleAgeRule_def oldVehicle_def seniorRate_def split: option.splits)

lemma urgency_part:
  "(if isUrgentJob workOrder \<and> (case rate of Some r \<Rightarrow> r \<noteq> 0 \<and> r \<ge> 30 | None \<Rightarrow> False)
    then s + 15 else s) = s + urgencyRule workOrder rate"
  by (auto simp: urgencyRule_def seniorRate_def split: option.splits)

lemma scoreTech_additive:
  "scoreTech data workOrder tech =
     workloadRule (activeJobs (getTechWorkload data (tech_id tech))) +
     experienceRule (hourly_rate tech) +
     certificationRule (certifications tech) +
     specialtyRule (jobTextOf workOrder) (specialties tech) +
     vehicleAgeRule data workOrder (hourly_rate tech) +
     urgencyRule workOrder (hourly_rate tech)"
  unfolding scoreTech_def Let_def
  by (simp only: workload_part experience_part certification_part specialty_part vehicle_part
      urgency_part)


lemma seeded_first_slot:
  "0 < length (getAvailableTimeSlots 0 None 0 ''oil-change'' None)"
  "available (getAvailableTimeSlots 0 None 0 ''oil-change'' None ! 0)"
proof -
  define thursday where "thursday =
     \<lparr>day_of_week = 4, open_time = ''08:00'', close_time = ''17:00'',
      lunch_start = Some ''12:00'', lunch_end = Some ''13:00'', is_closed = False\<rparr>"
  have h1: "getShopScheduleForDay 0 None 0 = Some thursday"
    unfolding thursday_def by (rule example_thursday)
  have h: "\<not> is_closed thursday" "open_time thursday = ''08:00''"
    "close_time thursday = ''17:00''" "lunch_start thursday = Some ''12:00''"
    "lunch_end thursday = Some ''13:00''"
    by (simp_all add: thursday_def)
  note sc = lunch_scenario [OF h1 h seeded_thursday_scenario]
  show "0 < length (getAvailableTimeSlots 0 None 0 ''oil-change'' None)"
    by (simp add: sc(1))
  show "available (getAvailableTimeSlots 0 None 0 ''oil-change'' None ! 0)"
    using sc(6) [of 0] by simp
qed

section \<open>Conflict detection: the claims\<close>

text \<open>
  C1. \<^verbatim>\<open>checkAppointmentConflict(start, end)\<close> returns a descriptor exactly when some stored
  appointment that is not cancelled has \<open>start < scheduled_end\<close> and
  \<open>end > scheduled_start\<close>. In particular it returns one for the interval of an active
  appointment \<open>b\<close> (an appointment's interval has \<open>scheduled_start < scheduled_end\<close>, the
  invariant of the data model), and none for an interval that every active appointment
  lies outside of or only touches at a boundary. The descriptor carries the id of the
  first such appointment in store order, and the appointments stored after it are not
  looked at: the result is the same when they are removed.
\<close>

theorem checkAppointmentConflict_first_overlap:
  fixes store :: "SchedulingData option"
  defines "stored \<equiv> appointments (getSchedulingData store)"
  shows
  "((checkAppointmentConflict store s e \<noteq> None) =
      (\<exists>a \<in> set stored. appt_status a \<noteq> appt_cancelled \<and>
         s < scheduled_end a \<and> e > scheduled_start a)) \<and>
   (b \<in> set stored \<and> appt_status b \<noteq> appt_cancelled \<and> scheduled_start b < scheduled_end b
      \<longrightarrow> checkAppointmentConflict store (scheduled_start b) (scheduled_end b) \<noteq> None) \<and>
   ((\<forall>a \<in> set stored. appt_status a \<noteq> appt_cancelled \<longrightarrow>
        e \<le> scheduled_start a \<or> scheduled_end a \<le> s)
      \<longrightarrow> checkAppointmentConflict store s e = None) \<and>
   (stored = pre @ c # post \<and>
    (\<forall>p \<in> set pre. appt_status p = appt_cancelled \<or>
        \<not> (s < scheduled_end p \<and> e > scheduled_start p)) \<and>
    appt_status c \<noteq> appt_cancelled \<and> s < scheduled_end c \<and> e > scheduled_start c
      \<longrightarrow> checkAppointmentConflict store s e =
            Some \<lparr>conflict_type = double_booking, message_time = scheduled_start c,
                  conflicting_appointment_id = Some (appt_id c)\<rparr> \<and>
          checkAppointmentConflict store s e =
            checkAppointmentConflict
              (Some ((getSchedulingData store)\<lparr>appointments := pre @ [c]\<rparr>)) s e)"
proof -
  have iff: "\<And>s e. (checkAppointmentConflict store s e \<noteq> None) =
      (\<exists>a \<in> set stored. appt_status a \<noteq> appt_cancelled \<and>
         s < scheduled_end a \<and> e > scheduled_start a)"
    unfolding checkAppointmentConflict_def stored_def by (rule conflictScan_iff)
  have eq: "b \<in> set stored \<and> appt_status b \<noteq> appt_cancelled \<and> scheduled_start b < scheduled_end b
      \<longrightarrow> checkAppointmentConflict store (scheduled_start b) (scheduled_end b) \<noteq> None"
    unfolding iff by auto
  have touch: "(\<forall>a \<in> set stored. appt_status a \<noteq> appt_cancelled \<longrightarrow>
        e \<le> scheduled_start a \<or> scheduled_end a \<le> s)
      \<longrightarrow> checkAppointmentConflict store s e = None"
    using iff [of s e] by fastforce
  have first: "stored = pre @ c # post \<and>
    (\<forall>p \<in> set pre. appt_status p = appt_cancelled \<or>
        \<not> (s < scheduled_end p \<and> e > scheduled_start p)) \<and>
    appt_status c \<noteq> appt_cancelled \<and> s < scheduled_end c \<and> e > scheduled_start c
      \<longrightarrow> checkAppointmentConflict store s e =
            Some \<lparr>conflict_type = double_booking, message_time = scheduled_start c,
                  conflicting_appointment_id = Some (appt_id c)\<rparr> \<and>
          checkAppointmentConflict store s e =
            checkAppointmentConflict
              (Some ((getSchedulingData store)\<lparr>appointments := pre @ [c]\<rparr>)) s e"
  proof (intro impI, elim conjE)
    assume st: "stored = pre @ c # post"
      and pre: "\<forall>p \<in> set pre. appt_status p = appt_cancelled \<or>
        \<not> (s < scheduled_end p \<and> e > scheduled_start p)"
      and c: "appt_status c \<noteq> appt_cancelled" "s < scheduled_end c" "e > scheduled_start c"
    have 1: "conflictScan (pre @ c # post) s e =
        Some \<lparr>conflict_type = double_booking, message_time = scheduled_start c,
              conflicting_appointment_id = Some (appt_id c)\<rparr>"
      by (rule conflictScan_first [OF pre c])
    have 2: "conflictScan (pre @ c # []) s e =
        Some \<lparr>conflict_type = double_booking, message_time = scheduled_start c,
              conflicting_appointment_id = Some (appt_id c)\<rparr>"
      by (rule conflictScan_first [OF pre c])
    show "checkAppointmentConflict store s e =
            Some \<lparr>conflict_type = double_booking, message_time = scheduled_start c,
                  conflicting_appointment_id = Some (appt_id c)\<rparr> \<and>
          checkAppointmentConflict store s e =
            checkAppointmentConflict
              (Some ((getSchedulingData store)\<lparr>appointments := pre @ [c]\<rparr>)) s e"
      using 1 2 st by (simp add: checkAppointmentConflict_def stored_def getSchedulingData_def)
  qed
  from iff [of s e] eq touch first show ?thesis by blast
qed

theorem checkAppointmentConflict_first_overlap_witness:
  "checkAppointmentConflict example_store 33300000 35100000 =
     Some \<lparr>conflict_type = double_booking, message_time = 32400000,
           conflicting_appointment_id = Some ''A2''\<rparr> \<and>
   checkAppointmentConflict example_store 32400000 36000000 \<noteq> None \<and>
   checkAppointmentConflict example_store 37800000 39600000 = None"
  using
    checkAppointmentConflict_first_overlap [of example_store 33300000 35100000
      "example_appointments ! 1" "[example_appointments ! 0]" "example_appointments ! 1"
      "drop 2 example_appointments"]
    checkAppointmentConflict_first_overlap [of example_store 37800000 39600000
      "example_appointments ! 1" "[]" "example_appointments ! 1" "[]"]
  by (simp add: example_store_def example_appointments_def getSchedulingData_def)

text \<open>
  C10. The interval is not validated: an empty interval \<open>start = end = t\<close> that lies
  strictly inside a stored active appointment is reported as a conflict.
\<close>

theorem checkAppointmentConflict_empty_interval:
  "a \<in> set (appointments (getSchedulingData store)) \<Longrightarrow> appt_status a \<noteq> appt_cancelled \<Longrightarrow>
   scheduled_start a < t \<Longrightarrow> t < scheduled_end a \<Longrightarrow>
   checkAppointmentConflict store t t \<noteq> None"
  unfolding checkAppointmentConflict_def conflictScan_iff by auto

theorem checkAppointmentConflict_empty_interval_witness:
  "checkAppointmentConflict example_store 34200000 34200000 \<noteq> None"
  using checkAppointmentConflict_empty_interval [of "example_appointments ! 1" example_store 34200000]
  by (simp add: example_store_def example_appointments_def getSchedulingData_def)

section \<open>Closed days and service durations: the claims\<close>

text \<open>
  C9. When no stored schedule has the weekday of the date, and when the schedule found
  for the weekday is marked closed, \<^verbatim>\<open>getAvailableTimeSlots\<close> returns the empty list, for
  every service and vehicle year. The function is total and has no failing branch on
  these paths.
\<close>

theorem getAvailableTimeSlots_closed_or_missing:
  "((\<forall>sch \<in> set (shop_schedules (getSchedulingData store)). day_of_week sch \<noteq> getDay tz date)
      \<longrightarrow> getAvailableTimeSlots tz store date serviceId vehicleYear = []) \<and>
   (getShopScheduleForDay tz store date = Some schedule \<and> is_closed schedule
      \<longrightarrow> getAvailableTimeSlots tz store date serviceId vehicleYear = [])"
proof -
  have "(\<forall>sch \<in> set (shop_schedules (getSchedulingData store)). day_of_week sch \<noteq> getDay tz date)
      \<Longrightarrow> getShopScheduleForDay tz store date = None"
    by (simp add: getShopScheduleForDay_def find_None_iff)
  then show ?thesis
    by (auto simp: getAvailableTimeSlots_def)
qed

theorem getAvailableTimeSlots_closed_or_missing_witness:
  "getAvailableTimeSlots 0 example_closed_store 0 ''oil-change'' (Some 2005) = [] \<and>
   getAvailableTimeSlots 0 example_closed_store 86400000 ''oil-change'' None = []"
  using
    getAvailableTimeSlots_closed_or_missing [of example_closed_store 0 86400000 "''oil-change''"
      None "hd (shop_schedules (getSchedulingData example_closed_store))"]
    getAvailableTimeSlots_closed_or_missing [of example_closed_store 0 0 "''oil-change''"
      "Some 2005" "hd (shop_schedules (getSchedulingData example_closed_store))"]
  by (simp add: example_closed_store_def getSchedulingData_def getShopScheduleForDay_def
      getDay_def WeekDay_def Day_def LocalTime_def msPerDay_def)




section \<open>Time slots: the claims\<close>

text \<open>
  C2. For a date whose weekday schedule exists, is not closed and has \<^verbatim>\<open>HH:MM\<close> opening and
  closing times: the opening and closing times lie on the local day of the date and show
  as \<open>open_time\<close> and \<open>close_time\<close>, the \<open>i\<close>-th slot
  returned starts at the opening time plus \<open>i\<close> times 30 minutes, lasts
  \<^verbatim>\<open>calculateServiceDuration(serviceId, vehicleYear)\<close> minutes and ends no later than the
  closing time, and the slot starts are strictly ascending.
\<close>

theorem getAvailableTimeSlots_slot_shape:
  fixes serviceId :: string and vehicleYear :: "int option"
  assumes "getShopScheduleForDay tz store date = Some schedule" "\<not> is_closed schedule"
    and "open_time schedule = hhmm oh om" "0 \<le> oh" "oh < 24" "0 \<le> om" "om < 60"
    and "close_time schedule = hhmm ch cm" "0 \<le> ch" "ch < 24" "0 \<le> cm" "cm < 60"
  defines "slots \<equiv> getAvailableTimeSlots tz store date serviceId vehicleYear"
    and "openTime \<equiv> setHours tz date oh om 0 0"
    and "closeTime \<equiv> setHours tz date ch cm 0 0"
  shows "Day (LocalTime tz openTime) = Day (LocalTime tz date) \<and>
     toTimeString5 tz openTime = open_time schedule \<and>
     Day (LocalTime tz closeTime) = Day (LocalTime tz date) \<and>
     toTimeString5 tz closeTime = close_time schedule \<and>
     (\<forall>i < length slots.
        slot_start (slots ! i) = openTime + int i * (30 * msPerMinute) \<and>
        slot_end (slots ! i) - slot_start (slots ! i) =
          calculateServiceDuration store serviceId vehicleYear * msPerMinute \<and>
        slot_end (slots ! i) \<le> closeTime) \<and>
     sorted_wrt (<) (map slot_start slots)"
proof -
  have loop: "slots = slotLoop tz store schedule serviceId
      (calculateServiceDuration store serviceId vehicleYear) closeTime openTime"
    unfolding slots_def openTime_def closeTime_def using assms(1-12) by (rule result_is_loop)
  have "Day (LocalTime tz openTime) = Day (LocalTime tz date)"
    unfolding openTime_def using assms(4-7) by (rule Day_setHours)
  moreover have "Day (LocalTime tz closeTime) = Day (LocalTime tz date)"
    unfolding closeTime_def using assms(9-12) by (rule Day_setHours)
  moreover have "toTimeString5 tz openTime = open_time schedule"
    unfolding openTime_def using assms(3-7) by (simp add: setHours_toTimeString5)
  moreover have "toTimeString5 tz closeTime = close_time schedule"
    unfolding closeTime_def using assms(8-12) by (simp add: setHours_toTimeString5)
  moreover have "\<forall>i < length slots.
        slot_start (slots ! i) = openTime + int i * (30 * msPerMinute) \<and>
        slot_end (slots ! i) - slot_start (slots ! i) =
          calculateServiceDuration store serviceId vehicleYear * msPerMinute \<and>
        slot_end (slots ! i) \<le> closeTime"
    unfolding loop using slotLoop_shape by blast
  moreover have "sorted_wrt (<) (map slot_start slots)"
    unfolding loop by (rule slotLoop_sorted)
  ultimately show ?thesis by blast
qed

theorem getAvailableTimeSlots_slot_shape_witness:
  "3 < length (getAvailableTimeSlots 0 example_store 0 ''oil-change'' None) \<and>
   slot_start (getAvailableTimeSlots 0 example_store 0 ''oil-change'' None ! 3) = 34200000 \<and>
   slot_end (getAvailableTimeSlots 0 example_store 0 ''oil-change'' None ! 3) = 36000000"
proof -
  define thursday where "thursday =
     \<lparr>day_of_week = 4, open_time = ''08:00'', close_time = ''17:00'',
      lunch_start = Some ''12:00'', lunch_end = Some ''13:00'', is_closed = False\<rparr>"
  have len: "3 < length (getAvailableTimeSlots 0 example_store 0 ''oil-change'' None)"
    by (simp add: example_slots_loop slotLoop_length_iff)
  have h1: "getShopScheduleForDay 0 example_store 0 = Some thursday"
    unfolding thursday_def by (rule example_thursday)
  have h2: "\<not> is_closed thursday"
    by (simp add: thursday_def)
  have h3: "open_time thursday = hhmm 8 0" and h4: "close_time thursday = hhmm 17 0"
    by (simp_all add: thursday_def hhmm_literals)
  have n: "(0::int) \<le> 8" "(8::int) < 24" "(0::int) \<le> 0" "(0::int) < 60"
    "(0::int) \<le> 17" "(17::int) < 24"
    by simp_all
  have "\<forall>i < length (getAvailableTimeSlots 0 example_store 0 ''oil-change'' None).
      slot_start (getAvailableTimeSlots 0 example_store 0 ''oil-change'' None ! i) =
        setHours 0 0 8 0 0 0 + int i * (30 * msPerMinute) \<and>
      slot_end (getAvailableTimeSlots 0 example_store 0 ''oil-change'' None ! i) -
        slot_start (getAvailableTimeSlots 0 example_store 0 ''oil-change'' None ! i) =
        calculateServiceDuration example_store ''oil-change'' None * msPerMinute \<and>
      slot_end (getAvailableTimeSlots 0 example_store 0 ''oil-change'' None ! i) \<le>
        setHours 0 0 17 0 0 0"
    using getAvailableTimeSlots_slot_shape [OF h1 h2 h3 n(1-4) h4 n(5,6) n(3,4),
        of "''oil-change''" None]
    by blast
  with len have "slot_start (getAvailableTimeSlots 0 example_store 0 ''oil-change'' None ! 3) =
        setHours 0 0 8 0 0 0 + int 3 * (30 * msPerMinute) \<and>
      slot_end (getAvailableTimeSlots 0 example_store 0 ''oil-change'' None ! 3) -
        slot_start (getAvailableTimeSlots 0 example_store 0 ''oil-change'' None ! 3) =
        calculateServiceDuration example_store ''oil-change'' None * msPerMinute"
    by blast
  with len show ?thesis
    by (simp add: example_oil_change example_setHours msPerMinute_def)
qed

text \<open>
  C3. Every slot returned is decided in this order. With a lunch window configured as
  \<^verbatim>\<open>HH:MM\<close> times: when the slot's start is before the end of lunch and its end is after
  the start of lunch (times of day, to the minute, as the code compares them) the slot is
  unavailable with reason \<open>lunch\<close>, whether or not an appointment overlaps it; otherwise,
  when \<^verbatim>\<open>checkAppointmentConflict\<close> finds a conflict, it is unavailable with reason
  \<open>booked\<close>; otherwise it is available, with no reason. Without a lunch window only the
  last two cases remain.
\<close>

theorem getAvailableTimeSlots_availability:
  assumes "getShopScheduleForDay tz store date = Some schedule"
    and "slot \<in> set (getAvailableTimeSlots tz store date serviceId vehicleYear)"
  shows
    "(lunch_start schedule = Some (hhmm lsh lsm) \<and> 0 \<le> lsh \<and> lsh < 24 \<and> 0 \<le> lsm \<and> lsm < 60 \<and>
      lunch_end schedule = Some (hhmm leh lem) \<and> 0 \<le> leh \<and> leh < 24 \<and> 0 \<le> lem \<and> lem < 60 \<longrightarrow>
      (if minuteOfDay tz (slot_start slot) < 60 * leh + lem \<and>
          60 * lsh + lsm < minuteOfDay tz (slot_end slot)
       then \<not> available slot \<and> reason slot = Some ''lunch''
       else if checkAppointmentConflict store (slot_start slot) (slot_end slot) \<noteq> None
       then \<not> available slot \<and> reason slot = Some ''booked''
       else available slot \<and> reason slot = None)) \<and>
     (lunch_start schedule = None \<or> lunch_start schedule = Some [] \<or>
      lunch_end schedule = None \<or> lunch_end schedule = Some [] \<longrightarrow>
      (if checkAppointmentConflict store (slot_start slot) (slot_end slot) \<noteq> None
       then \<not> available slot \<and> reason slot = Some ''booked''
       else available slot \<and> reason slot = None))"
proof -
  from slot_of_result [OF assms(2)] assms(1) obtain cur e
    where slot: "slot = slotAt tz store schedule serviceId cur e"
    by auto
  have se: "slot_start slot = cur" "slot_end slot = e"
    by (simp_all add: slot slotAt_fields)
  have 1: "lunch_start schedule = Some (hhmm lsh lsm) \<and> 0 \<le> lsh \<and> lsh < 24 \<and> 0 \<le> lsm \<and> lsm < 60 \<and>
      lunch_end schedule = Some (hhmm leh lem) \<and> 0 \<le> leh \<and> leh < 24 \<and> 0 \<le> lem \<and> lem < 60 \<longrightarrow>
      (if minuteOfDay tz (slot_start slot) < 60 * leh + lem \<and>
          60 * lsh + lsm < minuteOfDay tz (slot_end slot)
       then \<not> available slot \<and> reason slot = Some ''lunch''
       else if checkAppointmentConflict store (slot_start slot) (slot_end slot) \<noteq> None
       then \<not> available slot \<and> reason slot = Some ''booked''
       else available slot \<and> reason slot = None)"
    unfolding se
    using slotAt_decision [of schedule lsh lsm leh lem tz store serviceId cur e]
    by (simp only: Let_def slot) blast
  have 2: "lunch_start schedule = None \<or> lunch_start schedule = Some [] \<or>
      lunch_end schedule = None \<or> lunch_end schedule = Some [] \<longrightarrow>
      (if checkAppointmentConflict store (slot_start slot) (slot_end slot) \<noteq> None
       then \<not> available slot \<and> reason slot = Some ''booked''
       else available slot \<and> reason slot = None)"
    unfolding se
    using slotAt_no_lunch [of schedule tz store serviceId cur e]
    by (simp only: Let_def slot) blast
  from 1 2 show ?thesis by blast
qed

theorem getAvailableTimeSlots_availability_witness:
  "available (getAvailableTimeSlots 0 example_store 0 ''oil-change'' None ! 0) \<and>
   reason (getAvailableTimeSlots 0 example_store 0 ''oil-change'' None ! 0) = None \<and>
   \<not> available (getAvailableTimeSlots 0 example_store 0 ''oil-change'' None ! 2) \<and>
   reason (getAvailableTimeSlots 0 example_store 0 ''oil-change'' None ! 2) = Some ''booked'' \<and>
   checkAppointmentConflict example_store 43200000 45000000 \<noteq> None \<and>
   \<not> available (getAvailableTimeSlots 0 example_store 0 ''oil-change'' None ! 8) \<and>
   reason (getAvailableTimeSlots 0 example_store 0 ''oil-change'' None ! 8) = Some ''lunch'' \<and>
   available (getAvailableTimeSlots 0 example_no_lunch_store 0 ''oil-change'' None ! 0)"
proof -
  define slots where "slots = getAvailableTimeSlots 0 example_store 0 ''oil-change'' None"
  define thursday where "thursday =
     \<lparr>day_of_week = 4, open_time = ''08:00'', close_time = ''17:00'',
      lunch_start = Some ''12:00'', lunch_end = Some ''13:00'', is_closed = False\<rparr>"
  define short_day where "short_day =
     \<lparr>day_of_week = 4, open_time = ''08:00'', close_time = ''10:00'',
      lunch_start = None, lunch_end = None, is_closed = False\<rparr>"
  have h1: "getShopScheduleForDay 0 example_store 0 = Some thursday"
    unfolding thursday_def by (rule example_thursday)
  have h2: "getShopScheduleForDay 0 example_no_lunch_store 0 = Some short_day"
    unfolding short_day_def by (rule example_no_lunch)
  have mem: "slots ! 0 \<in> set slots" "slots ! 2 \<in> set slots" "slots ! 8 \<in> set slots"
    unfolding slots_def by (auto intro!: nth_mem example_nth(2))
  have mem2: "getAvailableTimeSlots 0 example_no_lunch_store 0 ''oil-change'' None ! 0
      \<in> set (getAvailableTimeSlots 0 example_no_lunch_store 0 ''oil-change'' None)"
    by (rule nth_mem) (rule example_no_lunch_first)
  have lunch: "lunch_start thursday = Some (hhmm 12 0) \<and> (0::int) \<le> 12 \<and> (12::int) < 24 \<and>
      (0::int) \<le> 0 \<and> (0::int) < 60 \<and>
      lunch_end thursday = Some (hhmm 13 0) \<and> (0::int) \<le> 13 \<and> (13::int) < 24 \<and>
      (0::int) \<le> 0 \<and> (0::int) < 60"
    by (simp add: thursday_def hhmm_literals)
  have no_lunch: "lunch_start short_day = None"
    by (simp add: short_day_def)
  have se: "slot_start (slots ! 0) = 28800000" "slot_end (slots ! 0) = 30600000"
    "slot_start (slots ! 2) = 32400000" "slot_end (slots ! 2) = 34200000"
    "slot_start (slots ! 8) = 43200000" "slot_end (slots ! 8) = 45000000"
    unfolding slots_def by (simp_all add: example_nth(1) slotAt_fields)
  have c: "checkAppointmentConflict example_store 28800000 30600000 = None"
    "checkAppointmentConflict example_store 32400000 34200000 \<noteq> None"
    "checkAppointmentConflict example_store 43200000 45000000 \<noteq> None"
    by (simp_all add: checkAppointmentConflict_def example_store_def example_appointments_def
        getSchedulingData_def)
  from getAvailableTimeSlots_availability [OF h1 mem(1) [unfolded slots_def], of 12 0 13 0] lunch
  have "available (slots ! 0) \<and> reason (slots ! 0) = None"
    unfolding slots_def [symmetric] by (simp add: se example_minutes c)
  moreover
  from getAvailableTimeSlots_availability [OF h1 mem(2) [unfolded slots_def], of 12 0 13 0] lunch
  have "\<not> available (slots ! 2) \<and> reason (slots ! 2) = Some ''booked''"
    unfolding slots_def [symmetric] by (simp add: se example_minutes c)
  moreover
  from getAvailableTimeSlots_availability [OF h1 mem(3) [unfolded slots_def], of 12 0 13 0] lunch
  have "\<not> available (slots ! 8) \<and> reason (slots ! 8) = Some ''lunch''"
    unfolding slots_def [symmetric] by (simp add: se example_minutes c)
  moreover
  from getAvailableTimeSlots_availability [OF h2 mem2, of 0 0 0 0] no_lunch
  have "available (getAvailableTimeSlots 0 example_no_lunch_store 0 ''oil-change'' None ! 0)"
    by (simp add: example_no_lunch(3))
  ultimately show ?thesis
    unfolding slots_def using c(3) by blast
qed

text \<open>
  C7, as the code has it. Shop open 08:00--17:00, lunch 12:00--13:00, a service of 30
  minutes, no appointments, any date and time zone offset. There are 18 slots, every 30
  minutes from 08:00, so none starts at 11:45. The slot at 08:00 is available; the slot
  at 11:30 ends at 12:00, only touches the lunch window and is available; the slot at
  12:00 ends at 12:30 and is unavailable with reason \<open>lunch\<close>.
\<close>

theorem lunch_scenario_slots:
  fixes serviceId :: string and vehicleYear :: "int option"
  assumes "getShopScheduleForDay tz store date = Some schedule" "\<not> is_closed schedule"
    and "open_time schedule = ''08:00''" "close_time schedule = ''17:00''"
    and "lunch_start schedule = Some ''12:00''" "lunch_end schedule = Some ''13:00''"
    and "calculateServiceDuration store serviceId vehicleYear = 30"
    and "appointments (getSchedulingData store) = []"
  defines "slots \<equiv> getAvailableTimeSlots tz store date serviceId vehicleYear"
  shows "length slots = 18 \<and>
     (\<forall>slot \<in> set slots. toTimeString5 tz (slot_start slot) \<noteq> ''11:45'') \<and>
     toTimeString5 tz (slot_start (slots ! 0)) = ''08:00'' \<and> available (slots ! 0) \<and>
     toTimeString5 tz (slot_start (slots ! 7)) = ''11:30'' \<and>
     toTimeString5 tz (slot_end (slots ! 7)) = ''12:00'' \<and> available (slots ! 7) \<and>
     toTimeString5 tz (slot_start (slots ! 8)) = ''12:00'' \<and>
     toTimeString5 tz (slot_end (slots ! 8)) = ''12:30'' \<and>
     \<not> available (slots ! 8) \<and> reason (slots ! 8) = Some ''lunch''"
proof -
  note sc = lunch_scenario [OF assms(1-8), folded slots_def]
  note st = lunch_scenario_strings [OF assms(1-8), folded slots_def]
  have "\<forall>slot \<in> set slots. toTimeString5 tz (slot_start slot) \<noteq> ''11:45''"
    unfolding slots_def using lunch_scenario_no_1145 [OF assms(1-8)] by blast
  moreover have "available (slots ! 0)" "available (slots ! 7)" "\<not> available (slots ! 8)"
    "reason (slots ! 8) = Some ''lunch''"
    using sc(6) [of 0] sc(6) [of 7] sc(6) [of 8] sc(7) [of 8] by simp_all
  ultimately show ?thesis
    using sc(1) st by blast
qed

theorem lunch_scenario_slots_witness:
  "length (getAvailableTimeSlots 0 None 0 ''oil-change'' None) = 18 \<and>
   available (getAvailableTimeSlots 0 None 0 ''oil-change'' None ! 0) \<and>
   toTimeString5 0 (slot_start (getAvailableTimeSlots 0 None 0 ''oil-change'' None ! 8)) = ''12:00'' \<and>
   reason (getAvailableTimeSlots 0 None 0 ''oil-change'' None ! 8) = Some ''lunch''"
proof -
  define thursday where "thursday =
     \<lparr>day_of_week = 4, open_time = ''08:00'', close_time = ''17:00'',
      lunch_start = Some ''12:00'', lunch_end = Some ''13:00'', is_closed = False\<rparr>"
  have h1: "getShopScheduleForDay 0 None 0 = Some thursday"
    unfolding thursday_def by (rule example_thursday)
  have h: "\<not> is_closed thursday" "open_time thursday = ''08:00''"
    "close_time thursday = ''17:00''" "lunch_start thursday = Some ''12:00''"
    "lunch_end thursday = Some ''13:00''"
    by (simp_all add: thursday_def)
  from lunch_scenario_slots [OF h1 h seeded_thursday_scenario]
  show ?thesis by blast
qed

text \<open>
  The scenario on the seeded store (1 January 1970, a Thursday, service \<open>oil-change\<close> of
  30 minutes, no appointments): no slot starts at 11:45.
\<close>

theorem lunch_scenario_no_slot_at_1145:
  "getShopScheduleForDay 0 None 0 =
     Some \<lparr>day_of_week = 4, open_time = ''08:00'', close_time = ''17:00'',
           lunch_start = Some ''12:00'', lunch_end = Some ''13:00'', is_closed = False\<rparr> \<and>
   calculateServiceDuration None ''oil-change'' None = 30 \<and>
   appointments (getSchedulingData None) = [] \<and>
   \<not> (\<exists>slot \<in> set (getAvailableTimeSlots 0 None 0 ''oil-change'' None).
        toTimeString5 0 (slot_start slot) = ''11:45'' \<and> \<not> available slot \<and>
        reason slot = Some ''lunch'')"
proof -
  define thursday where "thursday =
     \<lparr>day_of_week = 4, open_time = ''08:00'', close_time = ''17:00'',
      lunch_start = Some ''12:00'', lunch_end = Some ''13:00'', is_closed = False\<rparr>"
  have h1: "getShopScheduleForDay 0 None 0 = Some thursday"
    unfolding thursday_def by (rule example_thursday)
  have h: "\<not> is_closed thursday" "open_time thursday = ''08:00''"
    "close_time thursday = ''17:00''" "lunch_start thursday = Some ''12:00''"
    "lunch_end thursday = Some ''13:00''"
    by (simp_all add: thursday_def)
  have "\<not> (\<exists>slot \<in> set (getAvailableTimeSlots 0 None 0 ''oil-change'' None).
        toTimeString5 0 (slot_start slot) = ''11:45'' \<and> \<not> available slot \<and>
        reason slot = Some ''lunch'')"
    using lunch_scenario_no_1145 [OF h1 h seeded_thursday_scenario] by blast
  with h1 seeded_thursday_scenario show ?thesis
    unfolding thursday_def by blast
qed

section \<open>Technicians: the claims\<close>

text \<open>
  C5, as the code has it. The score is the sum of the rules (\<open>scoreTech_additive\<close>). A
  technician with four or more active jobs, at least one specialty and no specialty
  matching the job text in any tier scores \<open>-50\<close>, plus 5 for each certification, plus
  the bonuses that depend on the hourly rate (the experience bonus, and the old-vehicle
  and urgency bonuses where they apply), minus 10. A technician with no active job, rate
  40, exactly three certifications, one specialty that is a substring of the job text and
  no other specialty matching in any tier, on a job that is not urgent and whose vehicle
  is not older than 2010, scores \<open>25 + 15 + 15 + 40 = 95\<close>.
\<close>

theorem scoreTech_scenarios:
  "(4 \<le> activeJobs (getTechWorkload data (tech_id tech)) \<and>
    specialties tech = Some specs \<and> specs \<noteq> [] \<and>
    (\<forall>s \<in> set specs. specialtyTier (jobTextOf workOrder) s = 0) \<longrightarrow>
      scoreTech data workOrder tech =
        - 50 + certificationRule (certifications tech) +
        (experienceRule (hourly_rate tech) + vehicleAgeRule data workOrder (hourly_rate tech) +
         urgencyRule workOrder (hourly_rate tech)) - 10) \<and>
   (activeJobs (getTechWorkload data (tech_id tech)) = 0 \<and> hourly_rate tech = Some 40 \<and>
    certifications tech = Some certs \<and> length certs = 3 \<and>
    specialties tech = Some (pre @ s # post) \<and>
    str_includes (jobTextOf workOrder) (toLowerCase s) \<and>
    (\<forall>x \<in> set (pre @ post). specialtyTier (jobTextOf workOrder) x = 0) \<and>
    \<not> oldVehicle data workOrder \<and> \<not> isUrgentJob workOrder \<longrightarrow>
      scoreTech data workOrder tech = 25 + 15 + 15 + 40 \<and>
      scoreTech data workOrder tech = 95)"
proof -
  have a: "4 \<le> activeJobs (getTechWorkload data (tech_id tech)) \<and>
    specialties tech = Some specs \<and> specs \<noteq> [] \<and>
    (\<forall>s \<in> set specs. specialtyTier (jobTextOf workOrder) s = 0) \<longrightarrow>
      scoreTech data workOrder tech =
        - 50 + certificationRule (certifications tech) +
        (experienceRule (hourly_rate tech) + vehicleAgeRule data workOrder (hourly_rate tech) +
         urgencyRule workOrder (hourly_rate tech)) - 10"
    by (auto simp: scoreTech_additive workloadRule_def specialtyRule_def list_all_iff)
  have b: "activeJobs (getTechWorkload data (tech_id tech)) = 0 \<and> hourly_rate tech = Some 40 \<and>
    certifications tech = Some certs \<and> length certs = 3 \<and>
    specialties tech = Some (pre @ s # post) \<and>
    str_includes (jobTextOf workOrder) (toLowerCase s) \<and>
    (\<forall>x \<in> set (pre @ post). specialtyTier (jobTextOf workOrder) x = 0) \<and>
    \<not> oldVehicle data workOrder \<and> \<not> isUrgentJob workOrder \<longrightarrow>
      scoreTech data workOrder tech = 25 + 15 + 15 + 40 \<and>
      scoreTech data workOrder tech = 95"
  proof (intro impI, elim conjE)
    assume h: "activeJobs (getTechWorkload data (tech_id tech)) = 0" "hourly_rate tech = Some 40"
      "certifications tech = Some certs" "length certs = 3"
      "specialties tech = Some (pre @ s # post)"
      "str_includes (jobTextOf workOrder) (toLowerCase s)"
      "\<forall>x \<in> set (pre @ post). specialtyTier (jobTextOf workOrder) x = 0"
      "\<not> oldVehicle data workOrder" "\<not> isUrgentJob workOrder"
    have t: "specialtyTier (jobTextOf workOrder) s = 40"
      using h(6) by (simp add: specialtyTier_def)
    have z: "sum_list (map (specialtyTier (jobTextOf workOrder)) pre) = 0"
      "sum_list (map (specialtyTier (jobTextOf workOrder)) post) = 0"
      using h(7) by (simp_all add: sum_tiers_zero list_all_iff)
    have "specialtyRule (jobTextOf workOrder) (Some (pre @ s # post)) = 40"
      using t z by (simp add: specialtyRule_def)
    then have "scoreTech data workOrder tech = 95"
      using h(1-5,8,9)
      by (simp add: scoreTech_additive workloadRule_def experienceRule_def certificationRule_def
          vehicleAgeRule_def urgencyRule_def)
    then show "scoreTech data workOrder tech = 25 + 15 + 15 + 40 \<and>
      scoreTech data workOrder tech = 95"
      by simp
  qed
  from a b show ?thesis by blast
qed

theorem scoreTech_scenarios_witness:
  "scoreTech example_shop example_job (tech_profiles example_shop ! 2) = - 45 \<and>
   scoreTech example_shop example_job (tech_profiles example_shop ! 1) = 95"
  using
    scoreTech_scenarios [of example_shop "tech_profiles example_shop ! 2" "[''transmission'']"
      example_job "[]" "[]" "[]" "[]"]
    scoreTech_scenarios [of example_shop "tech_profiles example_shop ! 1" "[]"
      example_job "[''ASE A1'', ''ASE A5'', ''ASE A8'']" "[''hvac'']" "''brake''" "[]"]
  by code_simp

text \<open>
  Every specialty that matches adds its points: a technician with no active job, rate 40,
  three certifications and the specialties \<open>brake\<close> and \<open>engine\<close>, both substrings of the
  job text, scores 135 on a job that is not urgent and has no old vehicle.
\<close>

theorem scoreTech_two_matching_specialties:
  "active (tech_profiles example_shop ! 0) \<and>
   activeJobs (getTechWorkload example_shop (tech_id (tech_profiles example_shop ! 0))) = 0 \<and>
   hourly_rate (tech_profiles example_shop ! 0) = Some 40 \<and>
   certifications (tech_profiles example_shop ! 0) = Some [''ASE A1'', ''ASE A5'', ''ASE A8''] \<and>
   specialties (tech_profiles example_shop ! 0) = Some [''brake'', ''engine''] \<and>
   str_includes (jobTextOf example_job) ''brake'' \<and>
   \<not> oldVehicle example_shop example_job \<and> \<not> isUrgentJob example_job \<and>
   scoreTech example_shop example_job (tech_profiles example_shop ! 0) = 135"
  by code_simp



text \<open>
  C8, as the code has it. Every slot returned, available or not, carries the fixed list
  \<open>tech-001\<close>, \<open>tech-002\<close> of \<^verbatim>\<open>getAvailableTechs\<close>, whatever the roster of the shop
  database holds.
\<close>

theorem getAvailableTimeSlots_default_techs:
  "\<forall>slot \<in> set (getAvailableTimeSlots tz store date serviceId vehicleYear).
     available_techs slot = [''tech-001'', ''tech-002'']"
proof
  fix slot
  assume "slot \<in> set (getAvailableTimeSlots tz store date serviceId vehicleYear)"
  from slot_of_result [OF this] obtain schedule cur e
    where "slot = slotAt tz store schedule serviceId cur e"
    by blast
  then show "available_techs slot = [''tech-001'', ''tech-002'']"
    by (simp add: slotAt_fields)
qed

theorem getAvailableTimeSlots_default_techs_witness:
  "available_techs (getAvailableTimeSlots 0 None 0 ''oil-change'' None ! 0) =
     [''tech-001'', ''tech-002'']"
  using getAvailableTimeSlots_default_techs [of 0 None 0 "''oil-change''" None]
    nth_mem [OF seeded_first_slot(1)]
  by blast

text \<open>
  On the seeded stores the slot at 08:00 is available and carries two technician ids,
  while the seeded roster has three technicians, all active.
\<close>

theorem available_slot_not_all_technicians:
  "available (getAvailableTimeSlots 0 None 0 ''oil-change'' None ! 0) \<and>
   available_techs (getAvailableTimeSlots 0 None 0 ''oil-change'' None ! 0) =
     [''tech-001'', ''tech-002''] \<and>
   map tech_id (tech_profiles (getStorageData None)) = [''tech-001'', ''tech-002'', ''tech-003''] \<and>
   map tech_id (filter active (tech_profiles (getStorageData None))) =
     [''tech-001'', ''tech-002'', ''tech-003'']"
proof -
  from slot_of_result [OF nth_mem [OF seeded_first_slot(1)]] obtain schedule cur e
    where "getAvailableTimeSlots 0 None 0 ''oil-change'' None ! 0 =
      slotAt 0 None schedule ''oil-change'' cur e"
    by blast
  then have "available_techs (getAvailableTimeSlots 0 None 0 ''oil-change'' None ! 0) =
     [''tech-001'', ''tech-002'']"
    by (simp add: slotAt_fields)
  moreover have "map tech_id (tech_profiles (getStorageData None)) =
      [''tech-001'', ''tech-002'', ''tech-003'']"
    "map tech_id (filter active (tech_profiles (getStorageData None))) =
      [''tech-001'', ''tech-002'', ''tech-003'']"
    by (simp_all add: getStorageData_def initialData_def)
  ultimately show ?thesis
    using seeded_first_slot(2) by blast
qed

end
